theory Spec2Isabelle
  imports Main "HOL-Library.Word"
begin

section \<open>The binlog relay of dm: data model\<close>

text \<open>
  The embedding follows the Go source of package relay (the second document of
  src/dm/ctl/worker/switch\_relay\_master.go). Go values become HOL values, the
  receiver \<open>r *Relay\<close> is passed and returned explicitly, and every call that leaves the
  package (file system faults, the control DB, the upstream syncer, the meta store)
  takes its outcome from an environment record \<open>Env\<close>, one per loop iteration.
\<close>

type_synonym byte = "8 word"
type_synonym uint32 = "32 word"
type_synonym uint64 = "64 word"

subsection \<open>Errors\<close>

text \<open>
  Go error values. \<open>Annotated e msg\<close> is \<open>errors.Annotatef(e, msg)\<close>; \<open>errors.Trace\<close>
  only records a stack frame and is the identity here. \<open>Cause\<close> is \<open>errors.Cause\<close>.
  \<open>ErrBinlogPurged\<close> stands for the upstream error that \<open>utils.IsErrBinlogPurged\<close>
  recognises and \<open>ErrNoSuchThread\<close> for the one \<open>utils.IsNoSuchThreadError\<close> recognises.
\<close>

datatype error =
    Canceled
  | DeadlineExceeded
  | ErrChecksumMismatch
  | ErrSyncClosed
  | ErrNeedSyncAgain
  | ErrBinlogPurged
  | ErrNoSuchThread
  | ErrBinlogPosGreaterThanFileSize
  | EOF
  | ErrUnexpectedEOF
  | ErrShortWrite
  | ErrInvalid
  | ErrClosed
  | NotValid string
  | ErrorNew string
  | OtherError nat
  | Annotated error string

fun Cause :: "error \<Rightarrow> error" where
  "Cause (Annotated e msg) = Cause e"
| "Cause e = e"

text \<open>
  Modelled from the spec: \<open>utils.IsErrBinlogPurged\<close> and \<open>utils.IsNoSuchThreadError\<close> are
  not in src; the spec names the two conditions "binlog has been purged on master" and
  "no such thread".
\<close>

definition IsErrBinlogPurged :: "error \<Rightarrow> bool" where
  "IsErrBinlogPurged err = (Cause err = ErrBinlogPurged)"

definition IsNoSuchThreadError :: "error \<Rightarrow> bool" where
  "IsNoSuchThreadError err = (Cause err = ErrNoSuchThread)"

text \<open>The outcome of a call: a value, an error return, or a nil-pointer panic.\<close>

datatype 'a result = Ok 'a | Err error | Panic

subsection \<open>Decimal rendering for \<open>%d\<close>\<close>

definition digit_char :: "nat \<Rightarrow> char" where
  "digit_char n = ''0123456789'' ! n"

fun string_of_nat :: "nat \<Rightarrow> string" where
  "string_of_nat n =
     (if n < 10 then [digit_char n]
      else string_of_nat (n div 10) @ [digit_char (n mod 10)])"

declare string_of_nat.simps [simp del]

subsection \<open>Positions and GTID sets\<close>

record Position =
  Name :: string
  Pos :: uint32

text \<open>Go's string comparison: byte-wise lexicographic order.\<close>

fun string_less :: "string \<Rightarrow> string \<Rightarrow> bool" where
  "string_less [] [] = False"
| "string_less [] (y # ys) = True"
| "string_less (x # xs) [] = False"
| "string_less (x # xs) (y # ys) =
     (if (of_char x :: nat) < of_char y then True
      else if (of_char y :: nat) < of_char x then False
      else string_less xs ys)"

text \<open>
  \<open>mysql.Position.Compare\<close> of the go-mysql library: the names first, then the offsets;
  1, -1 or 0.
\<close>

definition Position_Compare :: "Position \<Rightarrow> Position \<Rightarrow> int" where
  "Position_Compare p o' =
     (if string_less (Name o') (Name p) then 1
      else if string_less (Name p) (Name o') then - 1
      else if Pos o' < Pos p then 1
      else if Pos p < Pos o' then - 1
      else 0)"

text \<open>
  A GTID set: for each uuid its intervals. Modelled from the spec: package gtid is not in
  src; \<open>Replace\<close> keeps the intervals of every uuid not listed from the receiver and
  takes the intervals of the listed uuids from the new set.
\<close>

type_synonym gtid_set = "(string \<times> (nat \<times> nat) list) list"

definition gtid_Replace :: "gtid_set \<Rightarrow> gtid_set \<Rightarrow> string list \<Rightarrow> gtid_set" where
  "gtid_Replace old new uuids =
     filter (\<lambda>(u, iv). u \<notin> set uuids) old @ filter (\<lambda>(u, iv). u \<in> set uuids) new"

subsection \<open>Binlog events\<close>

record EventHeader =
  Timestamp :: uint32
  LogPos :: uint32
  EventSize :: uint32

datatype Event =
    FormatDescriptionEvent
  | RotateEvent (NextLogName: string) (Position: uint64)
  | QueryEvent (QGSet: gtid_set)
  | XIDEvent (XGSet: gtid_set)
  | GenericEvent

record BinlogEvent =
  Header :: EventHeader
  Event :: Event
  RawData :: "byte list"

definition BinLogFileHeader :: "byte list" where
  "BinLogFileHeader = [0xFE, 0x62, 0x69, 0x6E]"

definition binlogHeaderSize :: nat where
  "binlogHeaderSize = 4"

subsection \<open>The meta store\<close>

text \<open>
  Modelled from the spec: the implementation behind \<open>NewLocalMeta\<close> is not in src. The
  record follows section 3 of the spec (Meta record) and the operations section 4.1.
  \<open>durable\<close> is the copy on stable storage. Whether an operation fails is decided by the
  environment.
\<close>

record MetaData =
  current_uuid :: string
  uuids :: "string list"
  position :: Position
  gtid_set :: gtid_set

record LocalMeta =
  baseDir :: string
  cur :: MetaData
  dirty :: bool
  durable :: "MetaData option"

definition emptyMetaData :: MetaData where
  "emptyMetaData =
     \<lparr>current_uuid = [], uuids = [], position = \<lparr>Name = [], Pos = 0\<rparr>, gtid_set = []\<rparr>"

text \<open>\<open>path.Join\<close> on two clean elements: empty elements are dropped.\<close>

definition path_Join :: "string \<Rightarrow> string \<Rightarrow> string" where
  "path_Join d f = (if d = [] then f else if f = [] then d else d @ ''/'' @ f)"

definition meta_UUID :: "LocalMeta \<Rightarrow> string" where
  "meta_UUID m = current_uuid (cur m)"

definition meta_Pos :: "LocalMeta \<Rightarrow> string \<times> Position" where
  "meta_Pos m = (current_uuid (cur m), position (cur m))"

definition meta_GTID :: "LocalMeta \<Rightarrow> string \<times> gtid_set" where
  "meta_GTID m = (current_uuid (cur m), gtid_set (cur m))"

definition meta_Dir :: "LocalMeta \<Rightarrow> string" where
  "meta_Dir m = path_Join (baseDir m) (current_uuid (cur m))"

definition meta_Dirty :: "LocalMeta \<Rightarrow> bool" where
  "meta_Dirty m = dirty m"

definition meta_Save ::
  "error option \<Rightarrow> LocalMeta \<Rightarrow> Position \<Rightarrow> gtid_set option \<Rightarrow> error option \<times> LocalMeta" where
  "meta_Save fault m pos g =
     (case fault of
        Some e \<Rightarrow> (Some e, m)
      | None \<Rightarrow>
          (None, m\<lparr>cur := (cur m)\<lparr>position := pos,
                        gtid_set := (case g of None \<Rightarrow> gtid_set (cur m) | Some s \<Rightarrow> s)\<rparr>,
                   dirty := True\<rparr>))"

definition meta_Flush :: "error option \<Rightarrow> LocalMeta \<Rightarrow> error option \<times> LocalMeta" where
  "meta_Flush fault m =
     (case fault of
        Some e \<Rightarrow> (Some e, m)
      | None \<Rightarrow> (None, m\<lparr>durable := Some (cur m), dirty := False\<rparr>))"

definition meta_AddDir ::
  "error option \<Rightarrow> LocalMeta \<Rightarrow> string \<Rightarrow> Position option \<Rightarrow> gtid_set option
     \<Rightarrow> error option \<times> LocalMeta" where
  "meta_AddDir fault m uuid pos g =
     (case fault of
        Some e \<Rightarrow> (Some e, m)
      | None \<Rightarrow>
          (let c = \<lparr>current_uuid = uuid,
                    uuids = uuids (cur m) @ [uuid],
                    position = (case pos of None \<Rightarrow> \<lparr>Name = [], Pos = 0\<rparr> | Some p \<Rightarrow> p),
                    gtid_set = (case g of None \<Rightarrow> gtid_set (cur m) | Some s \<Rightarrow> s)\<rparr>
           in (None, m\<lparr>cur := c, durable := Some c, dirty := False\<rparr>)))"

definition meta_Load :: "error option \<Rightarrow> LocalMeta \<Rightarrow> error option \<times> LocalMeta" where
  "meta_Load fault m =
     (case fault of
        Some e \<Rightarrow> (Some e, m)
      | None \<Rightarrow>
          (None, m\<lparr>cur := (case durable m of None \<Rightarrow> emptyMetaData | Some d \<Rightarrow> d)\<rparr>))"

subsection \<open>The environment of one iteration\<close>

text \<open>
  Everything the relay asks of the outside world in one loop iteration (or in one call
  from the operator): what \<open>GetEvent\<close> delivers, which file operations fail, what the
  control DB answers, whether the syncer can start, whether the meta store fails.
  A write fault \<open>Some (k, e)\<close> writes the first \<open>k\<close> bytes and then fails with \<open>e\<close>.
  \<open>parse_event_err\<close> is the verdict of the go-mysql parser on a non-empty rest of the
  file.
\<close>

record Env =
  get_event :: "error + BinlogEvent"
  open_file_err :: "error option"
  read_err :: "error option"
  seek_start_err :: "error option"
  write_header_fault :: "(nat \<times> error) option"
  parse_event_err :: "error option"
  seek_end_err :: "error option"
  write_event_fault :: "(nat \<times> error) option"
  stat_err :: "error option"
  meta_save_err :: "error option"
  meta_flush_err :: "error option"
  meta_adddir_err :: "error option"
  meta_load_err :: "error option"
  query_server_uuid :: "error + string"
  query_gtid_domain_id :: "error + uint32"
  query_server_id :: "error + uint32"
  query_master_status :: "error + Position \<times> gtid_set"
  kill_conn_err :: "error option"
  start_sync_err :: "error option"
  start_sync_gtid_err :: "error option"
  new_connection_id :: uint32

subsection \<open>The relay\<close>

record Config =
  EnableGTID :: bool
  AutoFixGTID :: bool
  Flavor :: string
  RelayDir :: string

definition MySQLFlavor :: string where
  "MySQLFlavor = ''mysql''"

definition MariaDBFlavor :: string where
  "MariaDBFlavor = ''mariadb''"

definition domainServerIDSeparator :: string where
  "domainServerIDSeparator = ''-''"

record File =
  fpath :: string
  foffset :: nat
  fclosed :: bool

record BinlogSyncer =
  connectionID :: uint32

record DB =
  db_closed :: bool

text \<open>
  What a streamer was started from: the argument of \<open>StartSync\<close> or \<open>StartSyncGTID\<close>.
\<close>

datatype BinlogStreamer = StreamFromPos Position | StreamFromGTID gtid_set

text \<open>
  The fields of the Go struct, then the state the package keeps outside of it: the
  files on disk (path to content) and the four counters. \<open>calls\<close> is a log, oldest
  first, of two things the event loop does: receiving an event from \<open>GetEvent\<close> and
  calling \<open>reSyncBinlog\<close>. Nothing reads it; it is there to state in which order they
  happen.
\<close>

datatype call = ReceivedEvent | CalledReSyncBinlog

record Relay =
  db :: "DB option"
  cfg :: Config
  syncer :: "BinlogSyncer option"
  meta :: LocalMeta
  lastSlaveConnectionID :: uint32
  fd :: "File option"
  closed :: bool
  files :: "string \<rightharpoonup> byte list"
  relayExitWithErrorCounter :: nat
  binlogReadErrorCounter :: nat
  relayLogWriteErrorCounter :: nat
  relayLogDataCorruptionCounter :: nat
  calls :: "call list"

subsection \<open>Files\<close>

definition file_content :: "(string \<rightharpoonup> byte list) \<Rightarrow> string \<Rightarrow> byte list" where
  "file_content fs p = (case fs p of None \<Rightarrow> [] | Some c \<Rightarrow> c)"

text \<open>\<open>os.OpenFile(path, O_CREATE|O_RDWR, 0644)\<close>: an absent file is created empty.\<close>

definition os_OpenFile ::
  "error option \<Rightarrow> (string \<rightharpoonup> byte list) \<Rightarrow> string
     \<Rightarrow> (error + File) \<times> (string \<rightharpoonup> byte list)" where
  "os_OpenFile fault fs p =
     (case fault of
        Some e \<Rightarrow> (Inl e, fs)
      | None \<Rightarrow>
          (Inr \<lparr>fpath = p, foffset = 0, fclosed = False\<rparr>,
           (case fs p of None \<Rightarrow> fs(p \<mapsto> []) | Some c \<Rightarrow> fs)))"

text \<open>
  \<open>r.fd.Read(b)\<close> with \<open>len(b) = n\<close>: the buffer (zero where nothing was read), the
  count and the error. On a nil file every method returns \<open>ErrInvalid\<close>.
\<close>

definition File_Read ::
  "error option \<Rightarrow> nat \<Rightarrow> Relay \<Rightarrow> byte list \<times> nat \<times> error option \<times> Relay" where
  "File_Read fault n r =
     (case fd r of
        None \<Rightarrow> (replicate n 0, 0, Some ErrInvalid, r)
      | Some f \<Rightarrow>
          if fclosed f then (replicate n 0, 0, Some ErrClosed, r)
          else (case fault of
                  Some e \<Rightarrow> (replicate n 0, 0, Some e, r)
                | None \<Rightarrow>
                    (let data = take n (drop (foffset f) (file_content (files r) (fpath f)))
                     in if n = 0 then ([], 0, None, r)
                        else if data = [] then (replicate n 0, 0, Some EOF, r)
                        else (data @ replicate (n - length data) 0, length data, None,
                              r\<lparr>fd := Some (f\<lparr>foffset := foffset f + length data\<rparr>)\<rparr>))))"

text \<open>\<open>r.fd.Seek(0, io.SeekStart)\<close> and \<open>r.fd.Seek(0, io.SeekEnd)\<close>.\<close>

definition File_SeekStart :: "error option \<Rightarrow> Relay \<Rightarrow> nat \<times> error option \<times> Relay" where
  "File_SeekStart fault r =
     (case fd r of
        None \<Rightarrow> (0, Some ErrInvalid, r)
      | Some f \<Rightarrow>
          if fclosed f then (0, Some ErrClosed, r)
          else (case fault of
                  Some e \<Rightarrow> (0, Some e, r)
                | None \<Rightarrow> (0, None, r\<lparr>fd := Some (f\<lparr>foffset := 0\<rparr>)\<rparr>)))"

definition File_SeekEnd :: "error option \<Rightarrow> Relay \<Rightarrow> nat \<times> error option \<times> Relay" where
  "File_SeekEnd fault r =
     (case fd r of
        None \<Rightarrow> (0, Some ErrInvalid, r)
      | Some f \<Rightarrow>
          if fclosed f then (0, Some ErrClosed, r)
          else (case fault of
                  Some e \<Rightarrow> (0, Some e, r)
                | None \<Rightarrow>
                    (let n = length (file_content (files r) (fpath f))
                     in (n, None, r\<lparr>fd := Some (f\<lparr>foffset := n\<rparr>)\<rparr>))))"

text \<open>
  \<open>r.fd.Write(b)\<close>: the bytes go to the current offset, over what is there and past the
  end. The count is \<open>len(b)\<close> exactly when there is no error.
\<close>

definition write_at :: "byte list \<Rightarrow> nat \<Rightarrow> byte list \<Rightarrow> byte list" where
  "write_at c off bs =
     take off c @ replicate (off - length c) 0 @ bs @ drop (off + length bs) c"

definition File_Write ::
  "(nat \<times> error) option \<Rightarrow> Relay \<Rightarrow> byte list \<Rightarrow> nat \<times> error option \<times> Relay" where
  "File_Write fault r bs =
     (case fd r of
        None \<Rightarrow> (0, Some ErrInvalid, r)
      | Some f \<Rightarrow>
          if fclosed f then (0, Some ErrClosed, r)
          else (let k = (case fault of None \<Rightarrow> length bs | Some (k, e) \<Rightarrow> min k (length bs));
                    err = (case fault of None \<Rightarrow> None | Some (k, e) \<Rightarrow> Some e);
                    c = file_content (files r) (fpath f)
                in if k = 0 then (0, err, r)
                   else (k, err,
                         r\<lparr>files := (files r)(fpath f \<mapsto> write_at c (foffset f) (take k bs)),
                           fd := Some (f\<lparr>foffset := foffset f + k\<rparr>)\<rparr>)))"

definition File_Close :: "Relay \<Rightarrow> Relay" where
  "File_Close r =
     (case fd r of None \<Rightarrow> r | Some f \<Rightarrow> r\<lparr>fd := Some (f\<lparr>fclosed := True\<rparr>)\<rparr>)"

section \<open>The file writer\<close>

definition writeBinlogHeaderIfNotExists :: "Env \<Rightarrow> Relay \<Rightarrow> error option \<times> Relay" where
  "writeBinlogHeaderIfNotExists env r =
     (case File_Read (read_err env) binlogHeaderSize r of
        (b, n, err, r1) \<Rightarrow>
          if err = Some EOF \<or> b \<noteq> BinLogFileHeader then
            (case File_SeekStart (seek_start_err env) r1 of
               (ret, Some e, r2) \<Rightarrow> (Some e, r2)
             | (ret, None, r2) \<Rightarrow>
                 (case File_Write (write_header_fault env) r2 BinLogFileHeader of
                    (k, Some e, r3) \<Rightarrow> (Some e, r3)
                  | (k, None, r3) \<Rightarrow> (None, r3)))
          else if err \<noteq> None then
            (err, r1\<lparr>relayLogDataCorruptionCounter := relayLogDataCorruptionCounter r1 + 1\<rparr>)
          else (None, r1))"

text \<open>
  \<open>replication.NewBinlogParser().ParseSingleEvent(r.fd, ...)\<close> of go-mysql, with a
  callback that accepts every event: it reports end of file when no byte is left at the
  current offset, fails on a cut-off event header (19 bytes), and otherwise parses one
  event, which the environment lets succeed or fail. The offset it leaves is overwritten
  by the seek that follows.
\<close>

definition EventHeaderSize :: nat where
  "EventHeaderSize = 19"

definition ParseSingleEvent :: "Env \<Rightarrow> Relay \<Rightarrow> bool \<times> error option \<times> Relay" where
  "ParseSingleEvent env r =
     (case fd r of
        None \<Rightarrow> (False, Some ErrInvalid, r)
      | Some f \<Rightarrow>
          if fclosed f then (False, Some ErrClosed, r)
          else (let c = file_content (files r) (fpath f);
                    rest = drop (foffset f) c;
                    r1 = r\<lparr>fd := Some (f\<lparr>foffset := foffset f + min EventHeaderSize (length rest)\<rparr>)\<rparr>
                in if rest = [] then (True, None, r)
                   else if length rest < EventHeaderSize then (False, Some ErrUnexpectedEOF, r1)
                   else (case parse_event_err env of
                           Some e \<Rightarrow> (False, Some e, r1)
                         | None \<Rightarrow> (False, None, r1))))"

definition checkFormatDescriptionEventExists ::
  "Env \<Rightarrow> Relay \<Rightarrow> string \<Rightarrow> (bool \<times> error option) \<times> Relay" where
  "checkFormatDescriptionEventExists env r filename =
     (case ParseSingleEvent env r of
        (eof, Some err2, r1) \<Rightarrow> ((False, Some err2), r1)
      | (eof, None, r1) \<Rightarrow> if \<not> eof then ((True, None), r1) else ((False, None), r1))"

definition handleFormatDescriptionEvent ::
  "Env \<Rightarrow> Relay \<Rightarrow> string \<Rightarrow> (bool \<times> error option) \<times> Relay" where
  "handleFormatDescriptionEvent env r filename =
     (let r0 = (case fd r of None \<Rightarrow> r | Some f \<Rightarrow> r\<lparr>fd := None\<rparr>)
      in if length filename = 0 then
           ((False, Some (NotValid ''write FormatDescriptionEvent with empty binlog filename'')),
            r0\<lparr>binlogReadErrorCounter := binlogReadErrorCounter r0 + 1\<rparr>)
         else
           (let fullPath = path_Join (meta_Dir (meta r0)) filename
            in case os_OpenFile (open_file_err env) (files r0) fullPath of
                 (Inl e, fs) \<Rightarrow> ((False, Some (Annotated e (''file full path '' @ fullPath))), r0)
               | (Inr f, fs) \<Rightarrow>
                   (case writeBinlogHeaderIfNotExists env (r0\<lparr>fd := Some f, files := fs\<rparr>) of
                      (Some e, r1) \<Rightarrow>
                        ((False, Some (Annotated e (''file full path '' @ fullPath))), r1)
                    | (None, r1) \<Rightarrow>
                        (case checkFormatDescriptionEventExists env r1 filename of
                           ((ex, Some e), r2) \<Rightarrow>
                             ((False, Some (Annotated e (''file full path '' @ fullPath))),
                              r2\<lparr>relayLogDataCorruptionCounter :=
                                    relayLogDataCorruptionCounter r2 + 1\<rparr>)
                         | ((ex, None), r2) \<Rightarrow>
                             (case File_SeekEnd (seek_end_err env) r2 of
                                (ret, Some e, r3) \<Rightarrow>
                                  ((False, Some (Annotated e (''file full path '' @ fullPath))), r3)
                              | (ret, None, r3) \<Rightarrow> ((ex, None), r3))))))"

section \<open>Switchover and resync\<close>

text \<open>
  \<open>getServerUUID\<close>; the three queries of package utils go to the control DB and panic on
  a nil handle.
\<close>

definition getServerUUID :: "Env \<Rightarrow> Relay \<Rightarrow> string result" where
  "getServerUUID env r =
     (case db r of
        None \<Rightarrow> Panic
      | Some d \<Rightarrow>
          if Flavor (cfg r) = MariaDBFlavor then
            (case query_gtid_domain_id env of
               Inl e \<Rightarrow> Err e
             | Inr domainID \<Rightarrow>
                 (case query_server_id env of
                    Inl e \<Rightarrow> Err e
                  | Inr serverID \<Rightarrow>
                      Ok (string_of_nat (unat domainID) @ domainServerIDSeparator
                            @ string_of_nat (unat serverID))))
          else (case query_server_uuid env of Inl e \<Rightarrow> Err e | Inr u \<Rightarrow> Ok u))"

definition reSetupMeta :: "Env \<Rightarrow> Relay \<Rightarrow> unit result \<times> Relay" where
  "reSetupMeta env r =
     (case getServerUUID env r of
        Panic \<Rightarrow> (Panic, r)
      | Err e \<Rightarrow> (Err e, r)
      | Ok uuid \<Rightarrow>
          (case meta_AddDir (meta_adddir_err env) (meta r) uuid None None of
             (Some e, m) \<Rightarrow> (Err e, r\<lparr>meta := m\<rparr>)
           | (None, m) \<Rightarrow>
               (case meta_Load (meta_load_err env) m of
                  (Some e, m') \<Rightarrow> (Err e, r\<lparr>meta := m'\<rparr>)
                | (None, m') \<Rightarrow> (Ok (), r\<lparr>meta := m'\<rparr>))))"

definition SwitchMaster :: "Env \<Rightarrow> Relay \<Rightarrow> unit result \<times> Relay" where
  "SwitchMaster env r =
     (if \<not> EnableGTID (cfg r) then
        (Err (ErrorNew ''can only switch relay's master server when GTID enabled''), r)
      else reSetupMeta env r)"

section \<open>Starting the stream\<close>

text \<open>
  \<open>r.syncer.StartSync(pos)\<close> and \<open>r.syncer.StartSyncGTID(gset)\<close>: a nil syncer panics;
  a started syncer holds the connection id the upstream assigned.
\<close>

definition syncer_StartSync :: "Env \<Rightarrow> Relay \<Rightarrow> Position \<Rightarrow> BinlogStreamer result \<times> Relay" where
  "syncer_StartSync env r pos =
     (case syncer r of
        None \<Rightarrow> (Panic, r)
      | Some s \<Rightarrow>
          (case start_sync_err env of
             Some e \<Rightarrow> (Err e, r)
           | None \<Rightarrow>
               (Ok (StreamFromPos pos),
                r\<lparr>syncer := Some (s\<lparr>connectionID := new_connection_id env\<rparr>)\<rparr>)))"

definition syncer_StartSyncGTID ::
  "Env \<Rightarrow> Relay \<Rightarrow> gtid_set \<Rightarrow> BinlogStreamer result \<times> Relay" where
  "syncer_StartSyncGTID env r gs =
     (case syncer r of
        None \<Rightarrow> (Panic, r)
      | Some s \<Rightarrow>
          (case start_sync_gtid_err env of
             Some e \<Rightarrow> (Err e, r)
           | None \<Rightarrow>
               (Ok (StreamFromGTID gs),
                r\<lparr>syncer := Some (s\<lparr>connectionID := new_connection_id env\<rparr>)\<rparr>)))"

definition startSyncByPos :: "Env \<Rightarrow> Relay \<Rightarrow> BinlogStreamer result \<times> Relay" where
  "startSyncByPos env r =
     (let pos = snd (meta_Pos (meta r))
      in if Name pos = [] then syncer_StartSync env r pos
         else
           (let p = path_Join (meta_Dir (meta r)) (Name pos)
            in case stat_err env of
                 Some e \<Rightarrow> (Err e, r)
               | None \<Rightarrow>
                   (case files r p of
                      None \<Rightarrow> syncer_StartSync env r (pos\<lparr>Pos := 4\<rparr>)
                    | Some c \<Rightarrow>
                        (let size = int (length c)
                         in if size > uint (Pos pos) then
                              (let pos' = pos\<lparr>Pos := word_of_int size\<rparr>
                               in case meta_Save (meta_save_err env) (meta r) pos' None of
                                    (Some e, m) \<Rightarrow> (Err e, r\<lparr>meta := m\<rparr>)
                                  | (None, m) \<Rightarrow> syncer_StartSync env (r\<lparr>meta := m\<rparr>) pos')
                            else if size < uint (Pos pos) then
                              (Err (Annotated ErrBinlogPosGreaterThanFileSize
                                      (Name pos @ '' size='' @ string_of_nat (length c)
                                         @ '', specific pos='' @ string_of_nat (unat (Pos pos)))),
                               r)
                            else syncer_StartSync env r pos))))"

definition startSyncByGTID :: "Env \<Rightarrow> Relay \<Rightarrow> BinlogStreamer result \<times> Relay" where
  "startSyncByGTID env r =
     (let gs = snd (meta_GTID (meta r))
      in case syncer_StartSyncGTID env r gs of
           (Err e, r1) \<Rightarrow> startSyncByPos env r1
         | out \<Rightarrow> out)"

text \<open>
  The deferred function of \<open>getBinlogStreamer\<close> reads \<open>r.syncer.LastConnectionID()\<close> on
  every way out.
\<close>

definition getBinlogStreamer :: "Env \<Rightarrow> Relay \<Rightarrow> BinlogStreamer result \<times> Relay" where
  "getBinlogStreamer env r =
     (case (if EnableGTID (cfg r) then startSyncByGTID env r else startSyncByPos env r) of
        (res, r1) \<Rightarrow>
          (case syncer r1 of
             None \<Rightarrow> (Panic, r1)
           | Some s \<Rightarrow> (res, r1\<lparr>lastSlaveConnectionID := connectionID s\<rparr>)))"

text \<open>
  \<open>retrySyncGTIDs\<close>. \<open>utils.GetMasterStatus\<close> queries the control DB; the error that
  \<open>Replace\<close> may return is dropped by the source.
\<close>

definition retrySyncGTIDs :: "Env \<Rightarrow> Relay \<Rightarrow> unit result \<times> Relay" where
  "retrySyncGTIDs env r =
     (if Flavor (cfg r) \<noteq> MySQLFlavor then (Ok (), r)
      else
        (let oldGTIDSet = snd (meta_GTID (meta r))
         in case db r of
              None \<Rightarrow> (Panic, r)
            | Some d \<Rightarrow>
                (case query_master_status env of
                   Inl e \<Rightarrow> (Err (Annotated e ''get master status''), r)
                 | Inr (masterPos, newGTIDSet) \<Rightarrow>
                     (case getServerUUID env r of
                        Panic \<Rightarrow> (Panic, r)
                      | Err e \<Rightarrow> (Err (Annotated e ''get master UUID''), r)
                      | Ok masterUUID \<Rightarrow>
                          (case meta_AddDir (meta_adddir_err env) (meta r) masterUUID None
                                  (Some (gtid_Replace oldGTIDSet newGTIDSet [masterUUID])) of
                             (Some e, m) \<Rightarrow>
                               (Err (Annotated e
                                  (''add sub relay directory for master server '' @ masterUUID)),
                                r\<lparr>meta := m\<rparr>)
                           | (None, m) \<Rightarrow> (Ok (), r\<lparr>meta := m\<rparr>))))))"

definition closeBinlogSyncer :: "Env \<Rightarrow> Relay \<Rightarrow> BinlogSyncer option \<Rightarrow> unit result" where
  "closeBinlogSyncer env r sy =
     (case sy of
        None \<Rightarrow> Ok ()
      | Some s \<Rightarrow>
          if connectionID s > 0 then
            (case db r of
               None \<Rightarrow> Panic
             | Some d \<Rightarrow>
                 (case kill_conn_err env of
                    None \<Rightarrow> Ok ()
                  | Some e \<Rightarrow>
                      if \<not> IsNoSuchThreadError e then
                        Err (Annotated e
                               (''connection ID '' @ string_of_nat (unat (connectionID s))))
                      else Ok ()))
          else Ok ())"

definition NewBinlogSyncer :: BinlogSyncer where
  "NewBinlogSyncer = \<lparr>connectionID = 0\<rparr>"

definition reopenStreamer :: "Env \<Rightarrow> Relay \<Rightarrow> BinlogStreamer result \<times> Relay" where
  "reopenStreamer env r =
     (case (if syncer r \<noteq> None then
              (case closeBinlogSyncer env r (syncer r) of
                 Panic \<Rightarrow> (Panic, r)
               | Err e \<Rightarrow> (Err e, r\<lparr>syncer := None\<rparr>)
               | Ok u \<Rightarrow> (Ok u, r\<lparr>syncer := None\<rparr>))
            else (Ok (), r)) of
        (Panic, r1) \<Rightarrow> (Panic, r1)
      | (Err e, r1) \<Rightarrow> (Err e, r1)
      | (Ok u, r1) \<Rightarrow> getBinlogStreamer env (r1\<lparr>syncer := Some NewBinlogSyncer\<rparr>))"

definition reSyncBinlog :: "Env \<Rightarrow> Relay \<Rightarrow> BinlogStreamer result \<times> Relay" where
  "reSyncBinlog env r =
     (case retrySyncGTIDs env r of
        (Panic, r1) \<Rightarrow> (Panic, r1)
      | (Err e, r1) \<Rightarrow> (Err e, r1)
      | (Ok u, r1) \<Rightarrow> reopenStreamer env r1)"

section \<open>The event loop\<close>

text \<open>
  The local variables of \<open>process\<close> that the loop updates. \<open>masterNode\<close> and
  \<open>masterUUID\<close> only label gauges, which are not modelled, nor are the histograms.
\<close>

record LoopVars =
  lastPos :: Position
  lastGTID :: gtid_set
  tryReSync :: bool
  streamer :: BinlogStreamer

text \<open>
  How one pass through the loop body ends: \<open>continue\<close> (or falling off the end of the
  body), \<open>return err\<close>, or a panic.
\<close>

datatype control = Continue | Return "error option" | Panicked

text \<open>
  The end of the loop body, after the type switch: the position update of raw mode, the
  write of the raw event bytes, and \<open>meta.Save\<close>.
\<close>

definition process_write ::
  "Env \<Rightarrow> BinlogEvent \<Rightarrow> LoopVars \<Rightarrow> Relay \<Rightarrow> control \<times> LoopVars \<times> Relay" where
  "process_write env e v r =
     (let v1 = (if \<not> EnableGTID (cfg r)
                then v\<lparr>lastPos := (lastPos v)\<lparr>Pos := LogPos (Header e)\<rparr>\<rparr> else v)
      in case File_Write (write_event_fault env) r (RawData e) of
           (n, Some err2, r1) \<Rightarrow>
             (Return (Some err2), v1,
              r1\<lparr>relayLogWriteErrorCounter := relayLogWriteErrorCounter r1 + 1\<rparr>)
         | (n, None, r1) \<Rightarrow>
             if n \<noteq> length (RawData e) then
               (Return (Some ErrShortWrite), v1,
                r1\<lparr>relayLogWriteErrorCounter := relayLogWriteErrorCounter r1 + 1\<rparr>)
             else
               (case meta_Save (meta_save_err env) (meta r1) (lastPos v1) (Some (lastGTID v1)) of
                  (Some err, m) \<Rightarrow> (Return (Some err), v1, r1\<lparr>meta := m\<rparr>)
                | (None, m) \<Rightarrow> (Continue, v1, r1\<lparr>meta := m\<rparr>)))"

text \<open>One pass through the body of the \<open>for\<close> loop of \<open>process\<close>.\<close>

definition process_iteration ::
  "Env \<Rightarrow> LoopVars \<Rightarrow> Relay \<Rightarrow> control \<times> LoopVars \<times> Relay" where
  "process_iteration env v r =
     (case get_event env of
        Inl err \<Rightarrow>
          (case Cause err of
             Canceled \<Rightarrow> (Return None, v, r)
           | DeadlineExceeded \<Rightarrow> (Continue, v, r)
           | ErrChecksumMismatch \<Rightarrow>
               (Return (Some err), v,
                r\<lparr>relayLogDataCorruptionCounter := relayLogDataCorruptionCounter r + 1\<rparr>)
           | ErrSyncClosed \<Rightarrow> (Return (Some err), v, r)
           | ErrNeedSyncAgain \<Rightarrow> (Return (Some err), v, r)
           | _ \<Rightarrow>
               if IsErrBinlogPurged err \<and> tryReSync v \<and> EnableGTID (cfg r) \<and> AutoFixGTID (cfg r)
               then
                 (case reSyncBinlog env (r\<lparr>calls := calls r @ [CalledReSyncBinlog]\<rparr>) of
                    (Ok s, r1) \<Rightarrow> (Continue, v\<lparr>streamer := s, tryReSync := False\<rparr>, r1)
                  | (Err e, r1) \<Rightarrow>
                      (Return (Some (Annotated e ''try auto switch with GTID'')), v, r1)
                  | (Panic, r1) \<Rightarrow> (Panicked, v, r1))
               else
                 (Return (Some err), v,
                  r\<lparr>binlogReadErrorCounter := binlogReadErrorCounter r + 1\<rparr>))
      | Inr e \<Rightarrow>
          (let v0 = v\<lparr>tryReSync := True\<rparr>;
               r0 = r\<lparr>calls := calls r @ [ReceivedEvent]\<rparr>
           in case Event e of
                FormatDescriptionEvent \<Rightarrow>
                  (case handleFormatDescriptionEvent env r0 (Name (lastPos v0)) of
                     ((exist, Some err), r1) \<Rightarrow> (Return (Some err), v0, r1)
                   | ((exist, None), r1) \<Rightarrow>
                       if exist then (Continue, v0, r1) else process_write env e v0 r1)
              | RotateEvent nextLogName pos \<Rightarrow>
                  (let currentPos = \<lparr>Name = nextLogName, Pos = ucast pos\<rparr>;
                       v1 = (if Position_Compare currentPos (lastPos v0) = 1
                             then v0\<lparr>lastPos := currentPos\<rparr> else v0)
                   in if Timestamp (Header e) = 0 \<or> LogPos (Header e) = 0
                      then (Continue, v1, r0)
                      else process_write env e v1 r0)
              | QueryEvent gset \<Rightarrow>
                  process_write env e
                    (v0\<lparr>lastPos := (lastPos v0)\<lparr>Pos := LogPos (Header e)\<rparr>, lastGTID := gset\<rparr>) r0
              | XIDEvent gset \<Rightarrow>
                  process_write env e
                    (v0\<lparr>lastPos := (lastPos v0)\<lparr>Pos := LogPos (Header e)\<rparr>, lastGTID := gset\<rparr>) r0
              | GenericEvent \<Rightarrow> process_write env e v0 r0))"

text \<open>
  The loop over what the environment delivers, one \<open>Env\<close> per call of \<open>GetEvent\<close>. When
  the list is used up the loop has not returned: it is waiting in \<open>GetEvent\<close>, and the
  result is \<open>Continue\<close>.
\<close>

fun process_loop :: "Env list \<Rightarrow> LoopVars \<Rightarrow> Relay \<Rightarrow> control \<times> LoopVars \<times> Relay" where
  "process_loop [] v r = (Continue, v, r)"
| "process_loop (env # envs) v r =
     (case process_iteration env v r of
        (Continue, v', r') \<Rightarrow> process_loop envs v' r'
      | out \<Rightarrow> out)"

text \<open>
  \<open>process\<close>: \<open>env0\<close> answers the calls made before the loop. The deferred function,
  registered once the streamer is there, closes \<open>r.fd\<close> when \<open>process\<close> returns or panics.
  The interval flush of the meta runs in its own goroutine and is not part of this
  function.
\<close>

definition process :: "Env \<Rightarrow> Env list \<Rightarrow> Relay \<Rightarrow> control \<times> Relay" where
  "process env0 envs r =
     (case (if length (meta_UUID (meta r)) = 0 then reSetupMeta env0 r else (Ok (), r)) of
        (Panic, r1) \<Rightarrow> (Panicked, r1)
      | (Err e, r1) \<Rightarrow> (Return (Some e), r1)
      | (Ok u, r1) \<Rightarrow>
          (case getBinlogStreamer env0 r1 of
             (Panic, r2) \<Rightarrow> (Panicked, r2)
           | (Err e, r2) \<Rightarrow> (Return (Some e), r2)
           | (Ok s, r2) \<Rightarrow>
               (case process_loop envs
                       \<lparr>lastPos = snd (meta_Pos (meta r2)), lastGTID = snd (meta_GTID (meta r2)),
                        tryReSync = True, streamer = s\<rparr> r2 of
                  (Continue, v, r3) \<Rightarrow> (Continue, r3)
                | (c, v, r3) \<Rightarrow> (c, File_Close r3))))"

section \<open>Lifecycle\<close>

datatype ErrorType = UnknownError

record ProcessError =
  Type :: ErrorType
  Msg :: error

record ProcessResult =
  IsCanceled :: bool
  Errors :: "ProcessError list"

text \<open>
  \<open>Process\<close>: what is sent on the result channel, if anything. \<open>ctxDone\<close> tells whether
  the parent context is cancelled when \<open>process\<close> has returned. The message of a
  \<open>ProcessError\<close> is the error it renders.
\<close>

definition Process :: "bool \<Rightarrow> Env \<Rightarrow> Env list \<Rightarrow> Relay \<Rightarrow> ProcessResult option \<times> Relay" where
  "Process ctxDone env0 envs r =
     (case process env0 envs r of
        (Continue, r1) \<Rightarrow> (None, r1)
      | (Panicked, r1) \<Rightarrow> (None, r1)
      | (Return err, r1) \<Rightarrow>
          (case (case err of
                   None \<Rightarrow> ([], r1)
                 | Some e \<Rightarrow>
                     if Cause e \<noteq> ErrSyncClosed then
                       ([\<lparr>Type = UnknownError, Msg = e\<rparr>],
                        r1\<lparr>relayExitWithErrorCounter := relayExitWithErrorCounter r1 + 1\<rparr>)
                     else ([], r1)) of
             (errs, r2) \<Rightarrow>
               (Some \<lparr>IsCanceled = (if length errs = 0 then ctxDone else False), Errors = errs\<rparr>,
                r2)))"

text \<open>
  \<open>Close\<close>. The error of \<open>closeBinlogSyncer\<close> is dropped, the error of \<open>meta.Flush\<close> is
  logged and dropped; the function has no result. It panics only where
  \<open>closeBinlogSyncer\<close> does.
\<close>

definition Close :: "Env \<Rightarrow> Relay \<Rightarrow> unit result \<times> Relay" where
  "Close env r =
     (if closed r then (Ok (), r)
      else
        (case (if syncer r \<noteq> None then
                 (case closeBinlogSyncer env r (syncer r) of
                    Panic \<Rightarrow> (Panic, r)
                  | res \<Rightarrow> (Ok (), r\<lparr>syncer := None\<rparr>))
               else (Ok (), r)) of
           (Ok u, r1) \<Rightarrow>
             (let r2 = (if fd r1 \<noteq> None then File_Close r1 else r1);
                  r3 = (case db r2 of None \<Rightarrow> r2
                        | Some d \<Rightarrow> r2\<lparr>db := Some (d\<lparr>db_closed := True\<rparr>)\<rparr>);
                  m = snd (meta_Flush (meta_flush_err env) (meta r3))
              in (Ok (), r3\<lparr>meta := m, closed := True\<rparr>))
         | (res, r1) \<Rightarrow> (Panic, r1)))"

definition IsClosed :: "Relay \<Rightarrow> bool" where
  "IsClosed r = closed r"

section \<open>Sample environments and states\<close>

text \<open>
  \<open>quiet_env\<close>: nothing fails and \<open>GetEvent\<close> times out. \<open>deliver e\<close> hands the event \<open>e\<close>
  to the loop, \<open>fail_with err\<close> makes \<open>GetEvent\<close> return \<open>err\<close>. \<open>sample_relay\<close> is a relay
  after \<open>Init\<close> on an empty relay directory, in position mode; \<open>gtid_relay\<close> is the same in
  GTID mode with auto-fix, and \<open>mariadb_relay\<close> is \<open>gtid_relay\<close> for the MariaDB flavor.
\<close>

definition quiet_env :: Env where
  "quiet_env =
     \<lparr>get_event = Inl DeadlineExceeded, open_file_err = None, read_err = None,
      seek_start_err = None, write_header_fault = None, parse_event_err = None,
      seek_end_err = None, write_event_fault = None, stat_err = None,
      meta_save_err = None, meta_flush_err = None, meta_adddir_err = None,
      meta_load_err = None, query_server_uuid = Inr ''uuid-a'',
      query_gtid_domain_id = Inr 0, query_server_id = Inr 1,
      query_master_status = Inr (\<lparr>Name = ''mysql-bin.000001'', Pos = 4\<rparr>, []),
      kill_conn_err = None, start_sync_err = None, start_sync_gtid_err = None,
      new_connection_id = 7\<rparr>"

definition deliver :: "BinlogEvent \<Rightarrow> Env" where
  "deliver e = quiet_env\<lparr>get_event := Inr e\<rparr>"

definition fail_with :: "error \<Rightarrow> Env" where
  "fail_with err = quiet_env\<lparr>get_event := Inl err\<rparr>"

definition binlog_event :: "Event \<Rightarrow> uint32 \<Rightarrow> uint32 \<Rightarrow> byte list \<Rightarrow> BinlogEvent" where
  "binlog_event e ts lp raw =
     \<lparr>Header = \<lparr>Timestamp = ts, LogPos = lp, EventSize = of_nat (length raw)\<rparr>,
      Event = e, RawData = raw\<rparr>"

definition sample_relay :: Relay where
  "sample_relay =
     \<lparr>db = Some \<lparr>db_closed = False\<rparr>,
      cfg = \<lparr>EnableGTID = False, AutoFixGTID = False, Flavor = ''mysql'', RelayDir = ''relay''\<rparr>,
      syncer = Some NewBinlogSyncer,
      meta = \<lparr>baseDir = ''relay'', cur = emptyMetaData, dirty = False, durable = None\<rparr>,
      lastSlaveConnectionID = 0, fd = None, closed = False, files = Map.empty,
      relayExitWithErrorCounter = 0, binlogReadErrorCounter = 0,
      relayLogWriteErrorCounter = 0, relayLogDataCorruptionCounter = 0, calls = []\<rparr>"

definition gtid_relay :: Relay where
  "gtid_relay = sample_relay\<lparr>cfg := (cfg sample_relay)\<lparr>EnableGTID := True, AutoFixGTID := True\<rparr>\<rparr>"

definition mariadb_relay :: Relay where
  "mariadb_relay = gtid_relay\<lparr>cfg := (cfg gtid_relay)\<lparr>Flavor := ''mariadb''\<rparr>\<rparr>"

text \<open>
  \<open>open_relay\<close> follows the master \<open>uuid-a\<close> and has \<open>mysql-bin.000001\<close> open at its end:
  the header and three bytes of a FormatDescriptionEvent. \<open>sample_vars\<close> are loop
  variables to go with it.
\<close>

definition sample_file :: string where
  "sample_file = ''relay/uuid-a/mysql-bin.000001''"

definition open_relay :: Relay where
  "open_relay =
     sample_relay
       \<lparr>meta := \<lparr>baseDir = ''relay'',
                 cur = \<lparr>current_uuid = ''uuid-a'', uuids = [''uuid-a''],
                        position = \<lparr>Name = ''mysql-bin.000001'', Pos = 120\<rparr>, gtid_set = []\<rparr>,
                 dirty = False, durable = None\<rparr>,
        fd := Some \<lparr>fpath = sample_file, foffset = 7, fclosed = False\<rparr>,
        files := [sample_file \<mapsto> BinLogFileHeader @ [9, 9, 9]]\<rparr>"

definition sample_vars :: LoopVars where
  "sample_vars =
     \<lparr>lastPos = \<lparr>Name = ''mysql-bin.000001'', Pos = 120\<rparr>, lastGTID = [], tryReSync = True,
      streamer = StreamFromPos \<lparr>Name = ''mysql-bin.000001'', Pos = 120\<rparr>\<rparr>"


text \<open>
  \<open>big_relay\<close> has the meta of \<open>open_relay\<close> (position 120 in \<open>mysql-bin.000001\<close>), no
  open file, and a local \<open>mysql-bin.000001\<close> of \<open>2 ^ 32 + 10\<close> bytes.
\<close>

definition big_file :: "byte list" where
  "big_file = replicate 4294967306 0"

definition big_relay :: Relay where
  "big_relay = open_relay\<lparr>fd := None, files := [sample_file \<mapsto> big_file]\<rparr>"

section \<open>Notions used in the properties\<close>

text \<open>
  Two states of the meta follow the same master with the same GTID set: the current
  sub-directory, the list of sub-directories and the GTID set agree.
\<close>

definition same_master :: "LocalMeta \<Rightarrow> LocalMeta \<Rightarrow> bool" where
  "same_master m m' =
     (current_uuid (cur m') = current_uuid (cur m) \<and> uuids (cur m') = uuids (cur m)
      \<and> gtid_set (cur m') = gtid_set (cur m))"

text \<open>
  A log of calls in which \<open>reSyncBinlog\<close> is never called twice without a received event
  in between; \<open>allowed\<close> tells whether a call of \<open>reSyncBinlog\<close> may come first.
  \<open>flag_after\<close> is what \<open>allowed\<close> has become at the end of the log.
\<close>

fun resyncs_spaced :: "bool \<Rightarrow> call list \<Rightarrow> bool" where
  "resyncs_spaced allowed [] = True"
| "resyncs_spaced allowed (ReceivedEvent # cs) = resyncs_spaced True cs"
| "resyncs_spaced allowed (CalledReSyncBinlog # cs) = (allowed \<and> resyncs_spaced False cs)"

fun flag_after :: "bool \<Rightarrow> call list \<Rightarrow> bool" where
  "flag_after allowed [] = allowed"
| "flag_after allowed (ReceivedEvent # cs) = flag_after True cs"
| "flag_after allowed (CalledReSyncBinlog # cs) = flag_after False cs"

text \<open>
  The content of a file once its first four bytes are the magic: itself when it starts
  with the magic, otherwise the magic followed by what came after the first four bytes.
\<close>

definition with_header :: "byte list \<Rightarrow> byte list" where
  "with_header c = (if take 4 c = BinLogFileHeader then c else BinLogFileHeader @ drop 4 c)"


definition header_io_ok :: "Env \<Rightarrow> bool" where
  "header_io_ok env = (seek_start_err env = None \<and> write_header_fault env = None)"

text \<open>
  \<open>no_open_file\<close>: \<open>r.fd\<close> is nil or closed, as it is in a new relay and after \<open>process\<close>
  has returned. \<open>fd_ok\<close>: an open \<open>r.fd\<close> is at offset 4 or beyond in a file that starts
  with the magic. \<open>kept_or_headed fs fs' p\<close>: the file at \<open>p\<close> is in \<open>fs'\<close> as it is in
  \<open>fs\<close>, or it starts with the magic.
\<close>

definition no_open_file :: "Relay \<Rightarrow> bool" where
  "no_open_file r = (case fd r of None \<Rightarrow> True | Some f \<Rightarrow> fclosed f)"

definition has_header :: "byte list option \<Rightarrow> bool" where
  "has_header c = (case c of None \<Rightarrow> False | Some d \<Rightarrow> take 4 d = BinLogFileHeader)"

definition fd_ok :: "Relay \<Rightarrow> bool" where
  "fd_ok r =
     (case fd r of
        None \<Rightarrow> True
      | Some f \<Rightarrow> fclosed f \<or> (4 \<le> foffset f \<and> has_header (files r (fpath f))))"

definition kept_or_headed ::
  "(string \<rightharpoonup> byte list) \<Rightarrow> (string \<rightharpoonup> byte list) \<Rightarrow> string \<Rightarrow> bool" where
  "kept_or_headed fs fs' p = (fs' p = fs p \<or> has_header (fs' p))"

section \<open>Properties\<close>

subsection \<open>An empty file name\<close>

text \<open>
  C8, as the code has it: called with an empty file name,
  \<open>handleFormatDescriptionEvent\<close> returns \<open>exist = false\<close> with a NotValid error, opens no
  file (the files are unchanged and \<open>r.fd\<close> is nil), and counts the event in
  \<open>binlogReadErrorCounter\<close>; the data-corruption counter keeps its value.
\<close>

theorem handleFormatDescriptionEvent_empty_filename:
  "handleFormatDescriptionEvent env r [] =
     ((False, Some (NotValid ''write FormatDescriptionEvent with empty binlog filename'')),
      r\<lparr>fd := None, binlogReadErrorCounter := binlogReadErrorCounter r + 1\<rparr>)"
  by (simp add: handleFormatDescriptionEvent_def split: option.split)

text \<open>The same on the sample relay: one read error counted, no data corruption.\<close>

theorem handleFormatDescriptionEvent_empty_filename_witness:
  "fst (handleFormatDescriptionEvent quiet_env sample_relay []) =
     (False, Some (NotValid ''write FormatDescriptionEvent with empty binlog filename''))
   \<and> binlogReadErrorCounter (snd (handleFormatDescriptionEvent quiet_env sample_relay [])) = 1
   \<and> relayLogDataCorruptionCounter (snd (handleFormatDescriptionEvent quiet_env sample_relay [])) = 0
   \<and> fd (snd (handleFormatDescriptionEvent quiet_env sample_relay [])) = None"
  using handleFormatDescriptionEvent_empty_filename [of quiet_env sample_relay]
  by (simp add: sample_relay_def)

text \<open>
  C8 as the spec words it asks for the data-corruption counter to go up by one; on the
  sample relay it does not.
\<close>

theorem empty_filename_not_data_corruption:
  "relayLogDataCorruptionCounter (snd (handleFormatDescriptionEvent quiet_env sample_relay []))
     \<noteq> relayLogDataCorruptionCounter sample_relay + 1"
  by code_simp

subsection \<open>Switching the master\<close>

lemma reSetupMeta_ok:
  "getServerUUID env r = Ok uuid \<Longrightarrow> meta_adddir_err env = None \<Longrightarrow> meta_load_err env = None \<Longrightarrow>
   reSetupMeta env r =
     (Ok (), r\<lparr>meta := (meta r)\<lparr>cur := \<lparr>current_uuid = uuid, uuids = uuids (cur (meta r)) @ [uuid],
                                   position = \<lparr>Name = [], Pos = 0\<rparr>, gtid_set = gtid_set (cur (meta r))\<rparr>,
                            durable := Some \<lparr>current_uuid = uuid, uuids = uuids (cur (meta r)) @ [uuid],
                                   position = \<lparr>Name = [], Pos = 0\<rparr>, gtid_set = gtid_set (cur (meta r))\<rparr>,
                            dirty := False\<rparr>\<rparr>)"
  by (simp add: reSetupMeta_def meta_AddDir_def meta_Load_def Let_def)

lemma reSetupMeta_Err_iff:
  "db r \<noteq> None \<Longrightarrow>
   (\<exists>e. fst (reSetupMeta env r) = Err e) \<longleftrightarrow>
     ((\<exists>e. getServerUUID env r = Err e) \<or> meta_adddir_err env \<noteq> None \<or> meta_load_err env \<noteq> None)"
  by (auto simp: reSetupMeta_def meta_AddDir_def meta_Load_def Let_def getServerUUID_def
      split: result.splits option.splits sum.splits if_splits)

text \<open>
  C5, as the code has it: with a control DB handle, \<open>SwitchMaster\<close> returns an error
  exactly when GTID mode is off or \<open>reSetupMeta\<close> fails, that is when fetching the server
  UUID, \<open>meta.AddDir\<close> or \<open>meta.Load\<close> fails. With GTID mode off the relay is untouched.
  With GTID mode on and no failure, the uuid is appended as the new current
  sub-directory by \<open>AddDir(uuid, nil, nil)\<close> (position zeroed, GTID set kept) and the
  meta is re-loaded. The uuid is \<open>domain_id-server_id\<close> for MariaDB and the server's
  uuid otherwise.
\<close>

theorem SwitchMaster_gating:
  assumes "db r \<noteq> None"
  shows "((\<exists>e. fst (SwitchMaster env r) = Err e) \<longleftrightarrow>
            (\<not> EnableGTID (cfg r) \<or> (\<exists>e. getServerUUID env r = Err e)
             \<or> meta_adddir_err env \<noteq> None \<or> meta_load_err env \<noteq> None))
       \<and> (\<not> EnableGTID (cfg r) \<longrightarrow> snd (SwitchMaster env r) = r)
       \<and> (EnableGTID (cfg r) \<and> getServerUUID env r = Ok uuid
            \<and> meta_adddir_err env = None \<and> meta_load_err env = None \<longrightarrow>
          SwitchMaster env r =
            (Ok (), r\<lparr>meta := (meta r)\<lparr>cur := \<lparr>current_uuid = uuid, uuids = uuids (cur (meta r)) @ [uuid],
                                   position = \<lparr>Name = [], Pos = 0\<rparr>, gtid_set = gtid_set (cur (meta r))\<rparr>,
                            durable := Some \<lparr>current_uuid = uuid, uuids = uuids (cur (meta r)) @ [uuid],
                                   position = \<lparr>Name = [], Pos = 0\<rparr>, gtid_set = gtid_set (cur (meta r))\<rparr>,
                            dirty := False\<rparr>\<rparr>))
       \<and> (Flavor (cfg r) = MariaDBFlavor \<and> query_gtid_domain_id env = Inr d \<and> query_server_id env = Inr s \<longrightarrow>
            getServerUUID env r = Ok (string_of_nat (unat d) @ ''-'' @ string_of_nat (unat s)))
       \<and> (Flavor (cfg r) \<noteq> MariaDBFlavor \<and> query_server_uuid env = Inr u \<longrightarrow> getServerUUID env r = Ok u)"
proof -
  have a: "(\<exists>e. fst (SwitchMaster env r) = Err e) \<longleftrightarrow>
            (\<not> EnableGTID (cfg r) \<or> (\<exists>e. getServerUUID env r = Err e)
             \<or> meta_adddir_err env \<noteq> None \<or> meta_load_err env \<noteq> None)"
    using reSetupMeta_Err_iff [OF assms, of env] by (simp add: SwitchMaster_def)
  have b: "\<not> EnableGTID (cfg r) \<longrightarrow> snd (SwitchMaster env r) = r"
    by (simp add: SwitchMaster_def)
  have c: "EnableGTID (cfg r) \<and> getServerUUID env r = Ok uuid
            \<and> meta_adddir_err env = None \<and> meta_load_err env = None \<longrightarrow>
          SwitchMaster env r =
            (Ok (), r\<lparr>meta := (meta r)\<lparr>cur := \<lparr>current_uuid = uuid, uuids = uuids (cur (meta r)) @ [uuid],
                                   position = \<lparr>Name = [], Pos = 0\<rparr>, gtid_set = gtid_set (cur (meta r))\<rparr>,
                            durable := Some \<lparr>current_uuid = uuid, uuids = uuids (cur (meta r)) @ [uuid],
                                   position = \<lparr>Name = [], Pos = 0\<rparr>, gtid_set = gtid_set (cur (meta r))\<rparr>,
                            dirty := False\<rparr>\<rparr>)"
    using reSetupMeta_ok [of env r uuid] by (simp add: SwitchMaster_def)
  have d: "Flavor (cfg r) = MariaDBFlavor \<and> query_gtid_domain_id env = Inr d \<and> query_server_id env = Inr s \<longrightarrow>
            getServerUUID env r = Ok (string_of_nat (unat d) @ ''-'' @ string_of_nat (unat s))"
    using assms by (auto simp: getServerUUID_def domainServerIDSeparator_def)
  have e: "Flavor (cfg r) \<noteq> MariaDBFlavor \<and> query_server_uuid env = Inr u \<longrightarrow> getServerUUID env r = Ok u"
    using assms by (auto simp: getServerUUID_def)
  from a b c d e show ?thesis by blast
qed

text \<open>
  On the MariaDB sample relay in GTID mode the switch succeeds and adds the directory
  \<open>0-1\<close>; on the sample relay in position mode it fails.
\<close>

theorem SwitchMaster_gating_witness:
  "db mariadb_relay \<noteq> None \<and> EnableGTID (cfg mariadb_relay) \<and> Flavor (cfg mariadb_relay) = MariaDBFlavor
   \<and> getServerUUID quiet_env mariadb_relay = Ok ''0-1''
   \<and> fst (SwitchMaster quiet_env mariadb_relay) = Ok ()
   \<and> cur (meta (snd (SwitchMaster quiet_env mariadb_relay))) =
        \<lparr>current_uuid = ''0-1'', uuids = [''0-1''], position = \<lparr>Name = [], Pos = 0\<rparr>, gtid_set = []\<rparr>
   \<and> (\<exists>e. fst (SwitchMaster quiet_env sample_relay) = Err e)"
proof -
  have h1: "db mariadb_relay \<noteq> None" by code_simp
  have h2: "EnableGTID (cfg mariadb_relay)" by code_simp
  have h3: "Flavor (cfg mariadb_relay) = MariaDBFlavor" by code_simp
  have h4: "query_gtid_domain_id quiet_env = Inr 0" "query_server_id quiet_env = Inr 1"
    "meta_adddir_err quiet_env = None" "meta_load_err quiet_env = None"
    by (simp_all add: quiet_env_def)
  have h5: "string_of_nat (unat (0::uint32)) @ ''-'' @ string_of_nat (unat (1::uint32)) = ''0-1''"
    by (simp add: string_of_nat.simps digit_char_def)
  have h6: "db sample_relay \<noteq> None" "\<not> EnableGTID (cfg sample_relay)" by code_simp+
  have h7: "uuids (cur (meta mariadb_relay)) = []" "gtid_set (cur (meta mariadb_relay)) = []" by code_simp+
  note t = SwitchMaster_gating [OF h1, of quiet_env "''0-1''" 0 1]
  note t' = SwitchMaster_gating [OF h6(1), of quiet_env]
  from t h2 h3 h4 h5 have u: "getServerUUID quiet_env mariadb_relay = Ok ''0-1''" by simp
  with t h2 h4 h7 have "SwitchMaster quiet_env mariadb_relay = (Ok (), mariadb_relay\<lparr>meta := (meta mariadb_relay)\<lparr>cur := \<lparr>current_uuid = ''0-1'', uuids = [''0-1''],
                                   position = \<lparr>Name = [], Pos = 0\<rparr>, gtid_set = []\<rparr>,
                            durable := Some \<lparr>current_uuid = ''0-1'', uuids = [''0-1''],
                                   position = \<lparr>Name = [], Pos = 0\<rparr>, gtid_set = []\<rparr>,
                            dirty := False\<rparr>\<rparr>)" by simp
  moreover from t' h6 have "\<exists>e. fst (SwitchMaster quiet_env sample_relay) = Err e" by blast
  ultimately show ?thesis using h1 h2 h3 u by simp
qed

text \<open>
  C5 as the spec words it ("an error if and only if GTID mode is off") fails when GTID
  mode is on and the control DB cannot tell the server UUID.
\<close>

theorem SwitchMaster_fails_with_gtid_enabled:
  "EnableGTID (cfg gtid_relay)
   \<and> fst (SwitchMaster (quiet_env\<lparr>query_server_uuid := Inl (OtherError 1)\<rparr>) gtid_relay)
       = Err (OtherError 1)"
  by code_simp


subsection \<open>What \<open>Process\<close> reports\<close>

lemma process_eq_loop:
  assumes "(if length (meta_UUID (meta r)) = 0 then reSetupMeta env0 r else (Ok (), r)) = (Ok (), r1)"
    and "getBinlogStreamer env0 r1 = (Ok s, r2)"
  shows "fst (process env0 envs r) =
           fst (process_loop envs
                  \<lparr>lastPos = snd (meta_Pos (meta r2)), lastGTID = snd (meta_GTID (meta r2)),
                   tryReSync = True, streamer = s\<rparr> r2)"
proof -
  let ?v = "\<lparr>lastPos = snd (meta_Pos (meta r2)), lastGTID = snd (meta_GTID (meta r2)),
             tryReSync = True, streamer = s\<rparr>"
  obtain c v3 r3 where l: "process_loop envs ?v r2 = (c, v3, r3)" by (metis prod_cases3)
  with assms show ?thesis
    by (cases c) (simp_all add: process_def del: process_loop.simps)
qed

lemma process_loop_deadline:
  assumes "get_event env = Inl e" and "Cause e = DeadlineExceeded"
  shows "process_loop (env # envs) v r = process_loop envs v r"
  using assms by (simp add: process_iteration_def)

lemma process_loop_canceled:
  assumes "get_event env = Inl e" and "Cause e = Canceled"
  shows "process_loop (env # envs) v r = (Return None, v, r)"
  using assms by (simp add: process_iteration_def)

lemma process_loop_recovered:
  assumes "get_event env = Inl e" and "IsErrBinlogPurged e" and "tryReSync v"
    and "EnableGTID (cfg r)" and "AutoFixGTID (cfg r)"
    and "reSyncBinlog env (r\<lparr>calls := calls r @ [CalledReSyncBinlog]\<rparr>) = (Ok s, r1)"
  shows "process_loop (env # envs) v r = process_loop envs (v\<lparr>streamer := s, tryReSync := False\<rparr>) r1"
  using assms by (simp add: process_iteration_def IsErrBinlogPurged_def)

lemma process_loop_resync_failed:
  assumes "get_event env = Inl e" and "IsErrBinlogPurged e" and "tryReSync v"
    and "EnableGTID (cfg r)" and "AutoFixGTID (cfg r)"
    and "reSyncBinlog env (r\<lparr>calls := calls r @ [CalledReSyncBinlog]\<rparr>) = (Err e', r1)"
  shows "process_loop (env # envs) v r =
           (Return (Some (Annotated e' ''try auto switch with GTID'')), v, r1)"
  using assms by (simp add: process_iteration_def IsErrBinlogPurged_def)

lemma process_loop_exit:
  assumes "get_event env = Inl e" and "Cause e \<noteq> Canceled" and "Cause e \<noteq> DeadlineExceeded"
    and "\<not> (IsErrBinlogPurged e \<and> tryReSync v \<and> EnableGTID (cfg r) \<and> AutoFixGTID (cfg r))"
  shows "fst (process_loop (env # envs) v r) = Return (Some e)"
  using assms by (cases "Cause e") (auto simp: process_iteration_def)

lemma Process_of_process:
  assumes "fst (process env0 envs r) = Return err"
  shows "fst (Process ctxDone env0 envs r) =
           Some \<lparr>IsCanceled = (ctxDone \<and> (case err of None \<Rightarrow> True | Some e \<Rightarrow> Cause e = ErrSyncClosed)),
                 Errors = (case err of None \<Rightarrow> []
                           | Some e \<Rightarrow> if Cause e = ErrSyncClosed then []
                                      else [\<lparr>Type = UnknownError, Msg = e\<rparr>])\<rparr>"
  using assms by (cases "process env0 envs r") (auto simp: Process_def split: option.splits)

text \<open>
  C7, as the code has it. When \<open>process\<close> returns, \<open>Process\<close> sends one result: an
  error that \<open>process\<close> returned is in the errors list unless its cause is
  \<open>ErrSyncClosed\<close>, in which case the list is empty, as it is when \<open>process\<close> returned
  nil; \<open>IsCanceled\<close> is true exactly when the list is empty and the parent context is
  cancelled. Once the stream is started, \<open>process\<close> returns what the loop returns. In
  the loop, an error of \<open>GetEvent\<close> whose cause is \<open>DeadlineExceeded\<close> changes nothing and
  the loop goes on; a purged-logs error that \<open>reSyncBinlog\<close> recovers makes the loop go
  on with the new streamer and the flag cleared, and one whose recovery fails makes the
  loop return the error of \<open>reSyncBinlog\<close>, annotated; a cause \<open>Canceled\<close> makes the loop
  return nil; every other error of \<open>GetEvent\<close>, \<open>ErrSyncClosed\<close> and \<open>ErrNeedSyncAgain\<close>
  among them, makes the loop return that error.
\<close>

theorem Process_delivers_loop_errors:
  "(fst (process env0 envs r) = Return err \<longrightarrow>
      fst (Process ctxDone env0 envs r) =
        Some \<lparr>IsCanceled = (ctxDone \<and> (case err of None \<Rightarrow> True | Some e \<Rightarrow> Cause e = ErrSyncClosed)),
              Errors = (case err of None \<Rightarrow> []
                        | Some e \<Rightarrow> if Cause e = ErrSyncClosed then []
                                   else [\<lparr>Type = UnknownError, Msg = e\<rparr>])\<rparr>)
   \<and> ((if length (meta_UUID (meta r)) = 0 then reSetupMeta env0 r else (Ok (), r)) = (Ok (), r1)
        \<and> getBinlogStreamer env0 r1 = (Ok s, r2) \<longrightarrow>
      fst (process env0 envs r) =
        fst (process_loop envs
               \<lparr>lastPos = snd (meta_Pos (meta r2)), lastGTID = snd (meta_GTID (meta r2)),
                tryReSync = True, streamer = s\<rparr> r2))
   \<and> (get_event env = Inl e \<and> Cause e = DeadlineExceeded \<longrightarrow>
      process_loop (env # rest) v r' = process_loop rest v r')
   \<and> (get_event env = Inl e \<and> IsErrBinlogPurged e \<and> tryReSync v
        \<and> EnableGTID (cfg r') \<and> AutoFixGTID (cfg r')
        \<and> reSyncBinlog env (r'\<lparr>calls := calls r' @ [CalledReSyncBinlog]\<rparr>) = (Ok s', r'') \<longrightarrow>
      process_loop (env # rest) v r' =
        process_loop rest (v\<lparr>streamer := s', tryReSync := False\<rparr>) r'')
   \<and> (get_event env = Inl e \<and> Cause e = Canceled \<longrightarrow>
      process_loop (env # rest) v r' = (Return None, v, r'))
   \<and> (get_event env = Inl e \<and> Cause e \<noteq> Canceled \<and> Cause e \<noteq> DeadlineExceeded
        \<and> \<not> (IsErrBinlogPurged e \<and> tryReSync v \<and> EnableGTID (cfg r') \<and> AutoFixGTID (cfg r')) \<longrightarrow>
      fst (process_loop (env # rest) v r') = Return (Some e))
   \<and> (get_event env = Inl e \<and> IsErrBinlogPurged e \<and> tryReSync v
        \<and> EnableGTID (cfg r') \<and> AutoFixGTID (cfg r')
        \<and> reSyncBinlog env (r'\<lparr>calls := calls r' @ [CalledReSyncBinlog]\<rparr>) = (Err e', r'') \<longrightarrow>
      process_loop (env # rest) v r' =
        (Return (Some (Annotated e' ''try auto switch with GTID'')), v, r''))"
  using Process_of_process [of env0 envs r err ctxDone] process_eq_loop [of r env0 r1 s r2 envs]
    process_loop_deadline [of env e rest v r'] process_loop_recovered [of env e v r' s' r'' rest]
    process_loop_canceled [of env e rest v r'] process_loop_exit [of env e v r' rest]
    process_loop_resync_failed [of env e v r' e' r'' rest]
  by blast

text \<open>
  A run in GTID mode with auto-fix: a timeout, purged logs (recovered), then
  \<open>ErrNeedSyncAgain\<close>, which is delivered. And single steps of the loop: a timeout is
  skipped, \<open>ErrNeedSyncAgain\<close> and a cancellation end it.
\<close>

theorem Process_delivers_loop_errors_witness:
  "fst (process quiet_env
          [fail_with DeadlineExceeded, fail_with ErrBinlogPurged, fail_with ErrNeedSyncAgain]
          gtid_relay) = Return (Some ErrNeedSyncAgain)
   \<and> fst (Process True quiet_env
          [fail_with DeadlineExceeded, fail_with ErrBinlogPurged, fail_with ErrNeedSyncAgain]
          gtid_relay) = Some \<lparr>IsCanceled = False, Errors = [\<lparr>Type = UnknownError, Msg = ErrNeedSyncAgain\<rparr>]\<rparr>
   \<and> process_loop [fail_with DeadlineExceeded, fail_with ErrNeedSyncAgain] sample_vars open_relay
       = process_loop [fail_with ErrNeedSyncAgain] sample_vars open_relay
   \<and> fst (process_loop [fail_with ErrNeedSyncAgain] sample_vars open_relay)
       = Return (Some ErrNeedSyncAgain)
   \<and> process_loop [fail_with Canceled] sample_vars open_relay = (Return None, sample_vars, open_relay)
   \<and> fst (process_loop [fail_with ErrBinlogPurged, fail_with ErrNeedSyncAgain] sample_vars gtid_relay)
       = Return (Some ErrNeedSyncAgain)"
proof -
  let ?run = "[fail_with DeadlineExceeded, fail_with ErrBinlogPurged, fail_with ErrNeedSyncAgain]"
  have h: "fst (process quiet_env ?run gtid_relay) = Return (Some ErrNeedSyncAgain)"
    by code_simp
  have g: "\<And>x. get_event (fail_with x) = Inl x" by (simp add: fail_with_def)
  note t = Process_delivers_loop_errors
  have a: "fst (Process True quiet_env ?run gtid_relay)
       = Some \<lparr>IsCanceled = False, Errors = [\<lparr>Type = UnknownError, Msg = ErrNeedSyncAgain\<rparr>]\<rparr>"
    using t [of quiet_env ?run gtid_relay "Some ErrNeedSyncAgain" True, THEN conjunct1] h by simp
  note t3 = t [THEN conjunct2, THEN conjunct2, THEN conjunct1, rule_format]
  note t5 = t [THEN conjunct2, THEN conjunct2, THEN conjunct2, THEN conjunct2, THEN conjunct1,
               rule_format]
  note t6 = t [THEN conjunct2, THEN conjunct2, THEN conjunct2, THEN conjunct2, THEN conjunct2,
               THEN conjunct1, rule_format]
  have b: "process_loop [fail_with DeadlineExceeded, fail_with ErrNeedSyncAgain] sample_vars open_relay
       = process_loop [fail_with ErrNeedSyncAgain] sample_vars open_relay"
    by (rule t3 [of "fail_with DeadlineExceeded" DeadlineExceeded]) (simp add: g)
  have c: "fst (process_loop [fail_with ErrNeedSyncAgain] sample_vars open_relay)
       = Return (Some ErrNeedSyncAgain)"
    by (rule t6 [of "fail_with ErrNeedSyncAgain" ErrNeedSyncAgain])
      (simp add: g IsErrBinlogPurged_def)
  have d: "process_loop [fail_with Canceled] sample_vars open_relay = (Return None, sample_vars, open_relay)"
    by (rule t5 [of "fail_with Canceled" Canceled]) (simp add: g)
  have e: "fst (process_loop [fail_with ErrBinlogPurged, fail_with ErrNeedSyncAgain] sample_vars gtid_relay)
       = Return (Some ErrNeedSyncAgain)"
    by code_simp
  from h a b c d e show ?thesis by blast
qed

text \<open>
  C7 as the spec words it has \<open>ErrSyncClosed\<close> delivered too; a run that ends on it
  sends an empty errors list.
\<close>

theorem ErrSyncClosed_not_delivered:
  "fst (process quiet_env [fail_with DeadlineExceeded, fail_with ErrSyncClosed] sample_relay)
     = Return (Some ErrSyncClosed)
   \<and> fst (Process False quiet_env [fail_with DeadlineExceeded, fail_with ErrSyncClosed] sample_relay)
     = Some \<lparr>IsCanceled = False, Errors = []\<rparr>"
  by code_simp

subsection \<open>Rotate events\<close>





subsection \<open>Closing\<close>

lemma closeBinlogSyncer_no_panic: "db r \<noteq> None \<Longrightarrow> closeBinlogSyncer env r sy \<noteq> Panic"
  by (auto simp: closeBinlogSyncer_def split: option.splits)

text \<open>
  C10: on a relay with a control DB handle, \<open>Close\<close> returns nothing but has set the
  closed flag, whatever \<open>meta.Flush\<close> did; when the flush failed the meta is as it was
  (still unflushed), and a later \<open>Close\<close>, in any environment, changes nothing, so the
  flush is not tried again.
\<close>

theorem Close_reaches_closed:
  assumes "db r \<noteq> None"
  shows "fst (Close env r) = Ok ()
       \<and> closed (snd (Close env r))
       \<and> Close env' (snd (Close env r)) = (Ok (), snd (Close env r))
       \<and> (meta_flush_err env \<noteq> None \<longrightarrow> meta (snd (Close env r)) = meta r)
       \<and> (meta_flush_err env = None \<and> \<not> closed r \<longrightarrow>
            meta (snd (Close env r)) = (meta r)\<lparr>durable := Some (cur (meta r)), dirty := False\<rparr>)"
proof -
  have np: "closeBinlogSyncer env r (syncer r) \<noteq> Panic"
    using assms by (rule closeBinlogSyncer_no_panic)
  have c: "closed (snd (Close env r))" and o: "fst (Close env r) = Ok ()"
    using np by (auto simp: Close_def Let_def split: result.splits option.splits)
  have "Close env' (snd (Close env r)) = (Ok (), snd (Close env r))"
    using c by (simp add: Close_def)
  moreover have "meta_flush_err env \<noteq> None \<longrightarrow> meta (snd (Close env r)) = meta r"
    using np by (auto simp: Close_def Let_def meta_Flush_def File_Close_def split: result.splits option.splits)
  moreover have "meta_flush_err env = None \<and> \<not> closed r \<longrightarrow>
            meta (snd (Close env r)) = (meta r)\<lparr>durable := Some (cur (meta r)), dirty := False\<rparr>"
    using np by (auto simp: Close_def Let_def meta_Flush_def File_Close_def split: result.splits option.splits)
  ultimately show ?thesis using c o by blast
qed

text \<open>A \<open>Close\<close> whose flush fails, followed by a \<open>Close\<close> whose flush would succeed.\<close>

theorem Close_reaches_closed_witness:
  "db open_relay \<noteq> None
   \<and> fst (Close (quiet_env\<lparr>meta_flush_err := Some (OtherError 28)\<rparr>) open_relay) = Ok ()
   \<and> closed (snd (Close (quiet_env\<lparr>meta_flush_err := Some (OtherError 28)\<rparr>) open_relay))
   \<and> meta (snd (Close (quiet_env\<lparr>meta_flush_err := Some (OtherError 28)\<rparr>) open_relay)) = meta open_relay
   \<and> Close quiet_env (snd (Close (quiet_env\<lparr>meta_flush_err := Some (OtherError 28)\<rparr>) open_relay))
       = (Ok (), snd (Close (quiet_env\<lparr>meta_flush_err := Some (OtherError 28)\<rparr>) open_relay))"
proof -
  have h: "db open_relay \<noteq> None" by code_simp
  have m: "meta_flush_err (quiet_env\<lparr>meta_flush_err := Some (OtherError 28)\<rparr>) \<noteq> None" by simp
  from Close_reaches_closed [OF h, of "quiet_env\<lparr>meta_flush_err := Some (OtherError 28)\<rparr>" quiet_env] h m
  show ?thesis by blast
qed


subsection \<open>Purged logs under a flavor other than MySQL\<close>

lemma retrySyncGTIDs_other_flavor:
  "Flavor (cfg r) \<noteq> MySQLFlavor \<Longrightarrow> retrySyncGTIDs env r = (Ok (), r)"
  by (simp add: retrySyncGTIDs_def)

lemma syncer_StartSync_meta: "meta (snd (syncer_StartSync env r pos)) = meta r"
  by (simp add: syncer_StartSync_def split: option.splits)

lemma syncer_StartSyncGTID_meta: "meta (snd (syncer_StartSyncGTID env r gs)) = meta r"
  by (simp add: syncer_StartSyncGTID_def split: option.splits)

lemma same_master_refl: "same_master m m"
  by (simp add: same_master_def)

lemma same_master_Save: "meta_Save fault m pos None = (e, m') \<Longrightarrow> same_master m m'"
  by (auto simp: same_master_def meta_Save_def split: option.splits)

lemma startSyncByPos_same_master: "same_master (meta r) (meta (snd (startSyncByPos env r)))"
  by (auto simp: startSyncByPos_def Let_def syncer_StartSync_meta same_master_refl
        split: option.splits prod.splits dest: same_master_Save)

lemma startSyncByGTID_same_master: "same_master (meta r) (meta (snd (startSyncByGTID env r)))"
proof (cases "syncer_StartSyncGTID env r (snd (meta_GTID (meta r)))")
  case (Pair res r1)
  have m: "meta r1 = meta r"
    using syncer_StartSyncGTID_meta [of env r "snd (meta_GTID (meta r))"] Pair by simp
  show ?thesis
  proof (cases res)
    case (Err e)
    with Pair m startSyncByPos_same_master [of r1 env] show ?thesis
      by (simp add: startSyncByGTID_def Let_def)
  qed (use Pair m in \<open>simp_all add: startSyncByGTID_def Let_def same_master_refl\<close>)
qed

lemma getBinlogStreamer_same_master: "same_master (meta r) (meta (snd (getBinlogStreamer env r)))"
  using startSyncByPos_same_master [of r env] startSyncByGTID_same_master [of r env]
  by (auto simp: getBinlogStreamer_def split: prod.splits option.splits)

lemma reopenStreamer_same_master: "same_master (meta r) (meta (snd (reopenStreamer env r)))"
proof -
  have a: "\<And>x. same_master (meta r) (meta (snd (getBinlogStreamer env (r\<lparr>syncer := x\<rparr>))))"
    using getBinlogStreamer_same_master [of "r\<lparr>syncer := x\<rparr>" env for x] by simp
  show ?thesis
    by (auto simp: reopenStreamer_def same_master_refl a split: result.splits option.splits)
qed

lemma reopenStreamer_ok:
  assumes "db r \<noteq> None" "kill_conn_err env = None" "start_sync_gtid_err env = None" "EnableGTID (cfg r)"
  shows "reopenStreamer env r =
           (Ok (StreamFromGTID (gtid_set (cur (meta r)))),
            r\<lparr>syncer := Some \<lparr>connectionID = new_connection_id env\<rparr>,
              lastSlaveConnectionID := new_connection_id env\<rparr>)"
  using assms
  by (auto simp: reopenStreamer_def closeBinlogSyncer_def getBinlogStreamer_def startSyncByGTID_def
        syncer_StartSyncGTID_def NewBinlogSyncer_def meta_GTID_def Let_def split: option.splits)

text \<open>
  C9, as the code has it: under a flavor other than MySQL (so under MariaDB)
  \<open>retrySyncGTIDs\<close> does nothing, and an iteration that reads a purged-logs error leaves
  the current sub-directory, the list of sub-directories and the GTID set of the meta
  as they were. Without GTID mode, without auto-fix or with the one-shot flag cleared the
  loop returns that error. With all three the iteration is decided by \<open>reopenStreamer\<close>:
  when it succeeds the loop continues on the new streamer with the flag cleared, when it
  fails the loop returns its error annotated "try auto switch with GTID", and where it
  panics so does the loop. With a control DB handle, a \<open>KillConn\<close> that does not fail and
  a \<open>StartSyncGTID\<close> that succeeds, \<open>reopenStreamer\<close> succeeds and the new streamer starts
  from the unchanged GTID set.
\<close>

theorem purged_logs_other_flavor:
  assumes "Flavor (cfg r) \<noteq> MySQLFlavor" and "get_event env = Inl err" and "IsErrBinlogPurged err"
  shows "retrySyncGTIDs env r = (Ok (), r)
       \<and> current_uuid (cur (meta (snd (snd (process_iteration env v r))))) = current_uuid (cur (meta r))
       \<and> uuids (cur (meta (snd (snd (process_iteration env v r))))) = uuids (cur (meta r))
       \<and> gtid_set (cur (meta (snd (snd (process_iteration env v r))))) = gtid_set (cur (meta r))
       \<and> (\<not> (tryReSync v \<and> EnableGTID (cfg r) \<and> AutoFixGTID (cfg r)) \<longrightarrow>
            process_iteration env v r =
              (Return (Some err), v, r\<lparr>binlogReadErrorCounter := binlogReadErrorCounter r + 1\<rparr>))
       \<and> (tryReSync v \<and> EnableGTID (cfg r) \<and> AutoFixGTID (cfg r) \<longrightarrow>
            process_iteration env v r =
              (case reopenStreamer env (r\<lparr>calls := calls r @ [CalledReSyncBinlog]\<rparr>) of
                 (Ok s, r1) \<Rightarrow> (Continue, v\<lparr>streamer := s, tryReSync := False\<rparr>, r1)
               | (Err e, r1) \<Rightarrow>
                   (Return (Some (Annotated e ''try auto switch with GTID'')), v, r1)
               | (Panic, r1) \<Rightarrow> (Panicked, v, r1)))
       \<and> (tryReSync v \<and> EnableGTID (cfg r) \<and> AutoFixGTID (cfg r) \<and> db r \<noteq> None
            \<and> kill_conn_err env = None \<and> start_sync_gtid_err env = None \<longrightarrow>
            process_iteration env v r =
              (Continue,
               v\<lparr>streamer := StreamFromGTID (gtid_set (cur (meta r))), tryReSync := False\<rparr>,
               r\<lparr>calls := calls r @ [CalledReSyncBinlog],
                 syncer := Some \<lparr>connectionID = new_connection_id env\<rparr>,
                 lastSlaveConnectionID := new_connection_id env\<rparr>))"
proof -
  let ?r0 = "r\<lparr>calls := calls r @ [CalledReSyncBinlog]\<rparr>"
  have c: "Cause err = ErrBinlogPurged" using assms(3) by (simp add: IsErrBinlogPurged_def)
  have rs: "reSyncBinlog env ?r0 = reopenStreamer env ?r0"
    using assms(1) by (simp add: reSyncBinlog_def retrySyncGTIDs_def)
  have it: "process_iteration env v r =
      (if tryReSync v \<and> EnableGTID (cfg r) \<and> AutoFixGTID (cfg r) then
         (case reopenStreamer env ?r0 of
            (Ok s, r1) \<Rightarrow> (Continue, v\<lparr>streamer := s, tryReSync := False\<rparr>, r1)
          | (Err e, r1) \<Rightarrow> (Return (Some (Annotated e ''try auto switch with GTID'')), v, r1)
          | (Panic, r1) \<Rightarrow> (Panicked, v, r1))
       else (Return (Some err), v, r\<lparr>binlogReadErrorCounter := binlogReadErrorCounter r + 1\<rparr>))"
    using assms(2,3) c rs by (simp add: process_iteration_def)
  have sm: "same_master (meta r) (meta (snd (snd (process_iteration env v r))))"
    using reopenStreamer_same_master [of ?r0 env]
    by (auto simp: it same_master_refl split: prod.splits result.splits)
  have a: "retrySyncGTIDs env r = (Ok (), r)"
    using assms(1) by (rule retrySyncGTIDs_other_flavor)
  have b: "\<not> (tryReSync v \<and> EnableGTID (cfg r) \<and> AutoFixGTID (cfg r)) \<longrightarrow>
            process_iteration env v r =
              (Return (Some err), v, r\<lparr>binlogReadErrorCounter := binlogReadErrorCounter r + 1\<rparr>)"
    using it by simp
  have d: "tryReSync v \<and> EnableGTID (cfg r) \<and> AutoFixGTID (cfg r) \<and> db r \<noteq> None
            \<and> kill_conn_err env = None \<and> start_sync_gtid_err env = None \<longrightarrow>
            process_iteration env v r =
              (Continue,
               v\<lparr>streamer := StreamFromGTID (gtid_set (cur (meta r))), tryReSync := False\<rparr>,
               r\<lparr>calls := calls r @ [CalledReSyncBinlog],
                 syncer := Some \<lparr>connectionID = new_connection_id env\<rparr>,
                 lastSlaveConnectionID := new_connection_id env\<rparr>)"
  proof (intro impI, elim conjE)
    assume h: "tryReSync v" "EnableGTID (cfg r)" "AutoFixGTID (cfg r)" "db r \<noteq> None"
      "kill_conn_err env = None" "start_sync_gtid_err env = None"
    have "reopenStreamer env ?r0 =
           (Ok (StreamFromGTID (gtid_set (cur (meta ?r0)))),
            ?r0\<lparr>syncer := Some \<lparr>connectionID = new_connection_id env\<rparr>,
              lastSlaveConnectionID := new_connection_id env\<rparr>)"
      using h by (intro reopenStreamer_ok) simp_all
    with it h show "process_iteration env v r =
              (Continue,
               v\<lparr>streamer := StreamFromGTID (gtid_set (cur (meta r))), tryReSync := False\<rparr>,
               r\<lparr>calls := calls r @ [CalledReSyncBinlog],
                 syncer := Some \<lparr>connectionID = new_connection_id env\<rparr>,
                 lastSlaveConnectionID := new_connection_id env\<rparr>)"
      by simp
  qed
  have g: "tryReSync v \<and> EnableGTID (cfg r) \<and> AutoFixGTID (cfg r) \<longrightarrow>
            process_iteration env v r =
              (case reopenStreamer env ?r0 of
                 (Ok s, r1) \<Rightarrow> (Continue, v\<lparr>streamer := s, tryReSync := False\<rparr>, r1)
               | (Err e, r1) \<Rightarrow>
                   (Return (Some (Annotated e ''try auto switch with GTID'')), v, r1)
               | (Panic, r1) \<Rightarrow> (Panicked, v, r1))"
    using it by simp
  from a b d g sm show ?thesis unfolding same_master_def by blast
qed

text \<open>
  On the MariaDB sample relay: the first purged-logs error is followed by a reopened
  streamer and a cleared flag; with the flag cleared the same error ends the loop; and
  when killing the old connection fails, the first purged-logs error ends the loop with
  the annotated error of \<open>KillConn\<close>.
\<close>

theorem purged_logs_other_flavor_witness:
  "Flavor (cfg mariadb_relay) \<noteq> MySQLFlavor
   \<and> IsErrBinlogPurged ErrBinlogPurged
   \<and> retrySyncGTIDs (fail_with ErrBinlogPurged) mariadb_relay = (Ok (), mariadb_relay)
   \<and> fst (process_iteration (fail_with ErrBinlogPurged) sample_vars mariadb_relay) = Continue
   \<and> tryReSync (fst (snd (process_iteration (fail_with ErrBinlogPurged) sample_vars mariadb_relay))) = False
   \<and> cur (meta (snd (snd (process_iteration (fail_with ErrBinlogPurged) sample_vars mariadb_relay))))
       = cur (meta mariadb_relay)
   \<and> fst (process_iteration (fail_with ErrBinlogPurged) (sample_vars\<lparr>tryReSync := False\<rparr>) mariadb_relay)
       = Return (Some ErrBinlogPurged)
   \<and> fst (process_iteration ((fail_with ErrBinlogPurged)\<lparr>kill_conn_err := Some (OtherError 3)\<rparr>)
            sample_vars (mariadb_relay\<lparr>syncer := Some \<lparr>connectionID = 7\<rparr>\<rparr>))
       = Return (Some (Annotated (Annotated (OtherError 3) ''connection ID 7'')
                   ''try auto switch with GTID''))"
proof -
  have h1: "Flavor (cfg mariadb_relay) \<noteq> MySQLFlavor" by code_simp
  have h2: "get_event (fail_with ErrBinlogPurged) = Inl ErrBinlogPurged" by (simp add: fail_with_def)
  have h3: "IsErrBinlogPurged ErrBinlogPurged" by (simp add: IsErrBinlogPurged_def)
  have h4: "tryReSync sample_vars \<and> EnableGTID (cfg mariadb_relay) \<and> AutoFixGTID (cfg mariadb_relay)
      \<and> db mariadb_relay \<noteq> None \<and> kill_conn_err (fail_with ErrBinlogPurged) = None
      \<and> start_sync_gtid_err (fail_with ErrBinlogPurged) = None"
    by code_simp
  have h5: "\<not> (tryReSync (sample_vars\<lparr>tryReSync := False\<rparr>) \<and> EnableGTID (cfg mariadb_relay)
      \<and> AutoFixGTID (cfg mariadb_relay))"
    by simp
  note t = purged_logs_other_flavor [OF h1 h2 h3]
  note a = t [of sample_vars, THEN conjunct1]
  note b = t [of sample_vars, THEN conjunct2, THEN conjunct2, THEN conjunct2, THEN conjunct2,
              THEN conjunct2, THEN conjunct2, rule_format, OF h4]
  note c = t [of "sample_vars\<lparr>tryReSync := False\<rparr>", THEN conjunct2, THEN conjunct2, THEN conjunct2,
              THEN conjunct2, THEN conjunct1, rule_format, OF h5]
  have k: "fst (process_iteration ((fail_with ErrBinlogPurged)\<lparr>kill_conn_err := Some (OtherError 3)\<rparr>)
            sample_vars (mariadb_relay\<lparr>syncer := Some \<lparr>connectionID = 7\<rparr>\<rparr>))
       = Return (Some (Annotated (Annotated (OtherError 3) ''connection ID 7'')
                   ''try auto switch with GTID''))"
    by code_simp
  from a b c k h1 h3 show ?thesis by simp
qed

text \<open>
  C9 as the spec words it has the run exit on a purged-logs error under MariaDB; with
  GTID mode and auto-fix the run goes on after the first one and exits on the second.
\<close>

theorem mariadb_purged_logs_resumes:
  "Flavor (cfg mariadb_relay) = MariaDBFlavor
   \<and> fst (process quiet_env [fail_with ErrBinlogPurged] mariadb_relay) = Continue
   \<and> fst (process quiet_env [fail_with ErrBinlogPurged, fail_with ErrBinlogPurged] mariadb_relay)
       = Return (Some ErrBinlogPurged)"
  by code_simp

subsection \<open>Where the stream starts\<close>

lemma syncer_StartSync_ok:
  "syncer r = Some s \<Longrightarrow> start_sync_err env = None \<Longrightarrow>
   syncer_StartSync env r pos =
     (Ok (StreamFromPos pos), r\<lparr>syncer := Some (s\<lparr>connectionID := new_connection_id env\<rparr>)\<rparr>)"
  by (simp add: syncer_StartSync_def)

text \<open>
  The three ways of \<open>startSyncByPos\<close>, for a recorded position whose name is not empty
  and a \<open>Stat\<close> that tells whether the file is there. When the local file is absent the
  sync starts at offset 4. When the file size is at least the recorded offset the sync
  starts at \<open>uint32(size)\<close> and the meta holds that position (saved when the size is
  strictly greater); for a size below \<open>2 ^ 32\<close> that is the file size. When the file
  size is below the recorded offset the result is \<open>ErrBinlogPosGreaterThanFileSize\<close>
  annotated with the name, the size and the position. The first two are stated for a
  syncer that starts and a \<open>meta.Save\<close> that does not fail.
\<close>

lemma startSyncByPos_cases:
  assumes "Name (position (cur (meta r))) \<noteq> []" and "stat_err env = None"
  shows "(files r (path_Join (meta_Dir (meta r)) (Name (position (cur (meta r))))) = None
            \<and> syncer r = Some s \<and> start_sync_err env = None \<longrightarrow>
          startSyncByPos env r =
            (Ok (StreamFromPos ((position (cur (meta r)))\<lparr>Pos := 4\<rparr>)),
             r\<lparr>syncer := Some (s\<lparr>connectionID := new_connection_id env\<rparr>)\<rparr>))
       \<and> (files r (path_Join (meta_Dir (meta r)) (Name (position (cur (meta r))))) = Some c
            \<and> uint (Pos (position (cur (meta r)))) \<le> int (length c)
            \<and> syncer r = Some s \<and> start_sync_err env = None \<and> meta_save_err env = None \<longrightarrow>
          fst (startSyncByPos env r) =
            Ok (StreamFromPos ((position (cur (meta r)))\<lparr>Pos := of_nat (length c)\<rparr>))
          \<and> position (cur (meta (snd (startSyncByPos env r)))) =
              (position (cur (meta r)))\<lparr>Pos := of_nat (length c)\<rparr>
          \<and> (length c < 2 ^ 32 \<longrightarrow> unat (of_nat (length c) :: uint32) = length c))
       \<and> (files r (path_Join (meta_Dir (meta r)) (Name (position (cur (meta r))))) = Some c
            \<and> int (length c) < uint (Pos (position (cur (meta r)))) \<longrightarrow>
          startSyncByPos env r =
            (Err (Annotated ErrBinlogPosGreaterThanFileSize
                    (Name (position (cur (meta r))) @ '' size='' @ string_of_nat (length c)
                       @ '', specific pos='' @ string_of_nat (unat (Pos (position (cur (meta r))))))),
             r))"
proof -
  let ?pos = "position (cur (meta r))"
  let ?p = "path_Join (meta_Dir (meta r)) (Name ?pos)"
  have a: "files r ?p = None \<and> syncer r = Some s \<and> start_sync_err env = None \<longrightarrow>
          startSyncByPos env r =
            (Ok (StreamFromPos (?pos\<lparr>Pos := 4\<rparr>)),
             r\<lparr>syncer := Some (s\<lparr>connectionID := new_connection_id env\<rparr>)\<rparr>)"
    using assms by (auto simp: startSyncByPos_def meta_Pos_def Let_def syncer_StartSync_ok)
  have b: "files r ?p = Some c \<and> uint (Pos ?pos) \<le> int (length c)
            \<and> syncer r = Some s \<and> start_sync_err env = None \<and> meta_save_err env = None \<longrightarrow>
          fst (startSyncByPos env r) = Ok (StreamFromPos (?pos\<lparr>Pos := of_nat (length c)\<rparr>))
          \<and> position (cur (meta (snd (startSyncByPos env r)))) = ?pos\<lparr>Pos := of_nat (length c)\<rparr>
          \<and> (length c < 2 ^ 32 \<longrightarrow> unat (of_nat (length c) :: uint32) = length c)"
  proof (intro impI, elim conjE)
    assume h: "files r ?p = Some c" "uint (Pos ?pos) \<le> int (length c)" "syncer r = Some s"
      "start_sync_err env = None" "meta_save_err env = None"
    have u: "length c < 2 ^ 32 \<longrightarrow> unat (of_nat (length c) :: uint32) = length c"
      by (simp add: unat_of_nat take_bit_nat_eq_self)
    show "fst (startSyncByPos env r) = Ok (StreamFromPos (?pos\<lparr>Pos := of_nat (length c)\<rparr>))
          \<and> position (cur (meta (snd (startSyncByPos env r)))) = ?pos\<lparr>Pos := of_nat (length c)\<rparr>
          \<and> (length c < 2 ^ 32 \<longrightarrow> unat (of_nat (length c) :: uint32) = length c)"
    proof (cases "uint (Pos ?pos) < int (length c)")
      case True
      with assms h u show ?thesis
        by (simp add: startSyncByPos_def meta_Pos_def Let_def syncer_StartSync_def meta_Save_def)
    next
      case False
      with h(2) have e: "int (length c) = uint (Pos ?pos)" by simp
      then have "(of_nat (length c) :: uint32) = Pos ?pos"
        by (metis of_int_of_nat_eq word_of_int_uint)
      with assms h u e show ?thesis
        by (simp add: startSyncByPos_def meta_Pos_def Let_def syncer_StartSync_def)
    qed
  qed
  have c: "files r ?p = Some c \<and> int (length c) < uint (Pos ?pos) \<longrightarrow>
          startSyncByPos env r =
            (Err (Annotated ErrBinlogPosGreaterThanFileSize
                    (Name ?pos @ '' size='' @ string_of_nat (length c)
                       @ '', specific pos='' @ string_of_nat (unat (Pos ?pos)))),
             r)"
    using assms by (auto simp: startSyncByPos_def meta_Pos_def Let_def)
  from a b c show ?thesis by blast
qed

text \<open>
  The three ways on the sample meta (position 120): no file, a file of 260 bytes, a file
  of 100 bytes.
\<close>

lemma startSyncByPos_cases_witness:
  "fst (startSyncByPos quiet_env (open_relay\<lparr>files := Map.empty\<rparr>)) =
     Ok (StreamFromPos \<lparr>Name = ''mysql-bin.000001'', Pos = 4\<rparr>)
   \<and> fst (startSyncByPos quiet_env (open_relay\<lparr>files := [sample_file \<mapsto> replicate 260 0]\<rparr>)) =
       Ok (StreamFromPos \<lparr>Name = ''mysql-bin.000001'', Pos = 260\<rparr>)
   \<and> position (cur (meta (snd (startSyncByPos quiet_env
         (open_relay\<lparr>files := [sample_file \<mapsto> replicate 260 0]\<rparr>))))) =
       \<lparr>Name = ''mysql-bin.000001'', Pos = 260\<rparr>
   \<and> fst (startSyncByPos quiet_env (open_relay\<lparr>files := [sample_file \<mapsto> replicate 100 0]\<rparr>)) =
       Err (Annotated ErrBinlogPosGreaterThanFileSize
              ''mysql-bin.000001 size=100, specific pos=120'')"
proof -
  let ?r = "\<lambda>fs. open_relay\<lparr>files := fs\<rparr>"
  let ?s = NewBinlogSyncer
  have n: "\<And>fs. Name (position (cur (meta (?r fs)))) \<noteq> []"
    and pos: "\<And>fs. position (cur (meta (?r fs))) = \<lparr>Name = ''mysql-bin.000001'', Pos = 120\<rparr>"
    and sy: "\<And>fs. syncer (?r fs) = Some ?s"
    by (simp_all add: open_relay_def sample_relay_def)
  have st: "stat_err quiet_env = None" "start_sync_err quiet_env = None" "meta_save_err quiet_env = None"
    by (simp_all add: quiet_env_def)
  have p: "\<And>fs. path_Join (meta_Dir (meta (?r fs))) ''mysql-bin.000001'' = sample_file"
    by (simp add: open_relay_def sample_relay_def meta_Dir_def path_Join_def sample_file_def)
  have str: "string_of_nat 100 = ''100''" "string_of_nat (unat (120 :: uint32)) = ''120''"
    by (simp_all add: string_of_nat.simps digit_char_def)
  note t = startSyncByPos_cases [OF n st(1)]
  have a: "fst (startSyncByPos quiet_env (?r Map.empty)) =
     Ok (StreamFromPos \<lparr>Name = ''mysql-bin.000001'', Pos = 4\<rparr>)"
    using t [of Map.empty ?s, THEN conjunct1] pos p sy st by simp
  have b: "fst (startSyncByPos quiet_env (?r [sample_file \<mapsto> replicate 260 0])) =
       Ok (StreamFromPos \<lparr>Name = ''mysql-bin.000001'', Pos = 260\<rparr>)
     \<and> position (cur (meta (snd (startSyncByPos quiet_env (?r [sample_file \<mapsto> replicate 260 0]))))) =
       \<lparr>Name = ''mysql-bin.000001'', Pos = 260\<rparr>"
    using t [of "[sample_file \<mapsto> replicate 260 0]" ?s "replicate 260 0", THEN conjunct2, THEN conjunct1]
      pos p sy st by simp
  have c: "fst (startSyncByPos quiet_env (?r [sample_file \<mapsto> replicate 100 0])) =
       Err (Annotated ErrBinlogPosGreaterThanFileSize
              ''mysql-bin.000001 size=100, specific pos=120'')"
    using t [of "[sample_file \<mapsto> replicate 100 0]" ?s "replicate 100 0", THEN conjunct2, THEN conjunct2]
      pos p sy st str by simp
  from a b c show ?thesis by simp
qed

lemma length_big_file: "length big_file = 4294967306"
  by (simp only: big_file_def length_replicate)

text \<open>
  C2: the sync is to resume from the file size whenever that is at least the recorded
  offset, as the comment and the log line of that branch say too. The code does so
  below \<open>2 ^ 32\<close> only: with a recorded offset of 120 and a local file of
  \<open>2 ^ 32 + 10\<close> bytes, \<open>uint32(stat.Size())\<close> wraps around and the sync resumes from
  offset 10, which is also what the meta is saved at.
\<close>

theorem startSyncByPos_truncates_file_size:
  "files big_relay sample_file = Some big_file
   \<and> length big_file = 4294967306
   \<and> position (cur (meta big_relay)) = \<lparr>Name = ''mysql-bin.000001'', Pos = 120\<rparr>
   \<and> fst (startSyncByPos quiet_env big_relay) =
       Ok (StreamFromPos \<lparr>Name = ''mysql-bin.000001'', Pos = 10\<rparr>)
   \<and> position (cur (meta (snd (startSyncByPos quiet_env big_relay)))) =
       \<lparr>Name = ''mysql-bin.000001'', Pos = 10\<rparr>"
proof -
  have p: "path_Join (meta_Dir (meta big_relay)) ''mysql-bin.000001'' = sample_file"
    by (simp add: big_relay_def open_relay_def sample_relay_def meta_Dir_def path_Join_def
          sample_file_def)
  have f: "files big_relay sample_file = Some big_file"
    by (simp add: big_relay_def)
  have m: "position (cur (meta big_relay)) = \<lparr>Name = ''mysql-bin.000001'', Pos = 120\<rparr>"
    by (simp add: big_relay_def open_relay_def)
  have s: "syncer big_relay = Some NewBinlogSyncer"
    by (simp add: big_relay_def open_relay_def sample_relay_def)
  have w: "(word_of_nat 4294967306 :: uint32) = 10" by simp
  from p f m s w length_big_file show ?thesis
    by (simp add: startSyncByPos_def meta_Pos_def Let_def syncer_StartSync_def meta_Save_def
          quiet_env_def)
qed


subsection \<open>The one-shot resync\<close>

text \<open>Only the loop body writes to the log of calls.\<close>

lemma resyncs_spaced_append:
  "resyncs_spaced a (xs @ ys) = (resyncs_spaced a xs \<and> resyncs_spaced (flag_after a xs) ys)"
  by (induction a xs rule: resyncs_spaced.induct) auto

lemma flag_after_append: "flag_after a (xs @ ys) = flag_after (flag_after a xs) ys"
  by (induction a xs rule: flag_after.induct) auto

lemma File_Write_calls: "calls (snd (snd (File_Write fault r bs))) = calls r"
  by (simp add: File_Write_def Let_def split: option.splits)

lemma File_Read_calls: "calls (snd (snd (snd (File_Read fault n r)))) = calls r"
  by (simp add: File_Read_def Let_def split: option.splits)

lemma File_SeekStart_calls: "calls (snd (snd (File_SeekStart fault r))) = calls r"
  by (simp add: File_SeekStart_def split: option.splits)

lemma File_SeekEnd_calls: "calls (snd (snd (File_SeekEnd fault r))) = calls r"
  by (simp add: File_SeekEnd_def Let_def split: option.splits)

lemma writeBinlogHeaderIfNotExists_calls:
  "calls (snd (writeBinlogHeaderIfNotExists env r)) = calls r"
proof -
  obtain b n err r1 where rd: "File_Read (read_err env) binlogHeaderSize r = (b, n, err, r1)"
    by (metis prod_cases4)
  have c1: "calls r1 = calls r" using File_Read_calls [of "read_err env" binlogHeaderSize r] rd by simp
  obtain ret e2 r2 where sk: "File_SeekStart (seek_start_err env) r1 = (ret, e2, r2)"
    by (metis prod_cases3)
  have c2: "calls r2 = calls r" using File_SeekStart_calls [of "seek_start_err env" r1] sk c1 by simp
  obtain k e3 r3 where wr: "File_Write (write_header_fault env) r2 BinLogFileHeader = (k, e3, r3)"
    by (metis prod_cases3)
  have c3: "calls r3 = calls r"
    using File_Write_calls [of "write_header_fault env" r2 BinLogFileHeader] wr c2 by simp
  show ?thesis
    using rd sk wr c1 c2 c3
    by (auto simp: writeBinlogHeaderIfNotExists_def split: option.splits)
qed

lemma ParseSingleEvent_calls: "calls (snd (snd (ParseSingleEvent env r))) = calls r"
  by (simp add: ParseSingleEvent_def Let_def split: option.splits)

lemma checkFormatDescriptionEventExists_calls:
  "calls (snd (checkFormatDescriptionEventExists env r name)) = calls r"
  using ParseSingleEvent_calls [of env r]
  by (auto simp: checkFormatDescriptionEventExists_def split: prod.splits option.splits)

lemma handleFormatDescriptionEvent_calls:
  "calls (snd (handleFormatDescriptionEvent env r name)) = calls r"
proof (cases "length name = 0")
  case True
  then show ?thesis by (simp add: handleFormatDescriptionEvent_def split: option.splits)
next
  case False
  let ?r0 = "(case fd r of None \<Rightarrow> r | Some f \<Rightarrow> r\<lparr>fd := None\<rparr>)"
  let ?p = "path_Join (meta_Dir (meta ?r0)) name"
  have c0: "calls ?r0 = calls r" by (simp split: option.splits)
  show ?thesis
  proof (cases "os_OpenFile (open_file_err env) (files ?r0) ?p")
    case (Pair res fs)
    show ?thesis
    proof (cases res)
      case (Inl e)
      with Pair False c0 show ?thesis by (simp add: handleFormatDescriptionEvent_def Let_def)
    next
      case (Inr f)
      let ?ra = "?r0\<lparr>fd := Some f, files := fs\<rparr>"
      have ca: "calls ?ra = calls r" using c0 by simp
      obtain e1 r1 where w: "writeBinlogHeaderIfNotExists env ?ra = (e1, r1)" by (metis surj_pair)
      have c1: "calls r1 = calls r"
        using writeBinlogHeaderIfNotExists_calls [of env ?ra] w ca by simp
      obtain ex e2 r2 where ch: "checkFormatDescriptionEventExists env r1 name = ((ex, e2), r2)"
        by (metis surj_pair)
      have c2: "calls r2 = calls r"
        using checkFormatDescriptionEventExists_calls [of env r1 name] ch c1 by simp
      obtain ret e3 r3 where sk: "File_SeekEnd (seek_end_err env) r2 = (ret, e3, r3)"
        by (metis prod_cases3)
      have c3: "calls r3 = calls r" using File_SeekEnd_calls [of "seek_end_err env" r2] sk c2 by simp
      show ?thesis
        using Pair Inr False w ch sk c1 c2 c3
        by (auto simp: handleFormatDescriptionEvent_def Let_def split: option.splits)
    qed
  qed
qed

lemma process_write_calls: "calls (snd (snd (process_write env e v r))) = calls r"
proof -
  obtain n e2 r1 where w: "File_Write (write_event_fault env) r (RawData e) = (n, e2, r1)"
    by (metis prod_cases3)
  have "calls r1 = calls r" using File_Write_calls [of "write_event_fault env" r "RawData e"] w by simp
  with w show ?thesis
    by (auto simp: process_write_def Let_def meta_Save_def split: option.splits)
qed

lemma syncer_StartSync_calls: "calls (snd (syncer_StartSync env r pos)) = calls r"
  by (simp add: syncer_StartSync_def split: option.splits)

lemma syncer_StartSyncGTID_calls: "calls (snd (syncer_StartSyncGTID env r gs)) = calls r"
  by (simp add: syncer_StartSyncGTID_def split: option.splits)

lemma startSyncByPos_calls: "calls (snd (startSyncByPos env r)) = calls r"
  by (auto simp: startSyncByPos_def Let_def syncer_StartSync_calls meta_Save_def
        split: option.splits)

lemma startSyncByGTID_calls: "calls (snd (startSyncByGTID env r)) = calls r"
proof (cases "syncer_StartSyncGTID env r (snd (meta_GTID (meta r)))")
  case (Pair res r1)
  have m: "calls r1 = calls r"
    using syncer_StartSyncGTID_calls [of env r "snd (meta_GTID (meta r))"] Pair by simp
  show ?thesis
    using Pair m startSyncByPos_calls [of env r1]
    by (cases res) (simp_all add: startSyncByGTID_def Let_def)
qed

lemma getBinlogStreamer_calls: "calls (snd (getBinlogStreamer env r)) = calls r"
  using startSyncByPos_calls [of env r] startSyncByGTID_calls [of env r]
  by (auto simp: getBinlogStreamer_def split: prod.splits option.splits)

lemma reopenStreamer_calls: "calls (snd (reopenStreamer env r)) = calls r"
proof -
  have a: "\<And>x. calls (snd (getBinlogStreamer env (r\<lparr>syncer := x\<rparr>))) = calls r"
    using getBinlogStreamer_calls [of env "r\<lparr>syncer := x\<rparr>" for x] by simp
  show ?thesis
    by (auto simp: reopenStreamer_def a split: result.splits option.splits)
qed

lemma retrySyncGTIDs_calls: "calls (snd (retrySyncGTIDs env r)) = calls r"
  by (auto simp: retrySyncGTIDs_def Let_def meta_AddDir_def
        split: option.splits sum.splits result.splits prod.splits)

lemma reSyncBinlog_calls: "calls (snd (reSyncBinlog env r)) = calls r"
proof (cases "retrySyncGTIDs env r")
  case (Pair res r1)
  have "calls r1 = calls r" using retrySyncGTIDs_calls [of env r] Pair by simp
  with Pair reopenStreamer_calls [of env r1] show ?thesis
    by (cases res) (simp_all add: reSyncBinlog_def)
qed

lemma reSetupMeta_calls: "calls (snd (reSetupMeta env r)) = calls r"
  by (auto simp: reSetupMeta_def meta_AddDir_def meta_Load_def Let_def
        split: option.splits result.splits)

lemma File_Close_calls: "calls (File_Close r) = calls r"
  by (simp add: File_Close_def split: option.splits)

lemma process_write_tryReSync: "tryReSync (fst (snd (process_write env e v r))) = tryReSync v"
  by (auto simp: process_write_def Let_def split: prod.splits option.splits)

lemma process_iteration_event:
  assumes "get_event env = Inr e"
  shows "calls (snd (snd (process_iteration env v r))) = calls r @ [ReceivedEvent]
       \<and> tryReSync (fst (snd (process_iteration env v r)))"
proof -
  let ?v0 = "v\<lparr>tryReSync := True\<rparr>"
  let ?r0 = "r\<lparr>calls := calls r @ [ReceivedEvent]\<rparr>"
  have w: "\<And>v' r'. tryReSync v' \<Longrightarrow> calls r' = calls r @ [ReceivedEvent] \<Longrightarrow>
      calls (snd (snd (process_write env e v' r'))) = calls r @ [ReceivedEvent]
      \<and> tryReSync (fst (snd (process_write env e v' r')))"
    by (simp add: process_write_calls process_write_tryReSync)
  show ?thesis
  proof (cases "Event e")
    case FormatDescriptionEvent
    obtain ex er r1 where h: "handleFormatDescriptionEvent env ?r0 (Name (lastPos ?v0)) = ((ex, er), r1)"
      by (metis surj_pair)
    have "calls r1 = calls r @ [ReceivedEvent]"
      using handleFormatDescriptionEvent_calls [of env ?r0 "Name (lastPos ?v0)"] h by simp
    with h assms FormatDescriptionEvent w [of ?v0 r1] show ?thesis
      by (auto simp: process_iteration_def Let_def split: option.splits)
  next
    case (RotateEvent n p)
    with assms w [of _ ?r0] show ?thesis
      by (auto simp: process_iteration_def Let_def)
  next
    case (QueryEvent g)
    with assms w [of _ ?r0] show ?thesis
      by (auto simp: process_iteration_def Let_def)
  next
    case (XIDEvent g)
    with assms w [of _ ?r0] show ?thesis
      by (auto simp: process_iteration_def Let_def)
  next
    case GenericEvent
    with assms w [of ?v0 ?r0] show ?thesis
      by (auto simp: process_iteration_def Let_def)
  qed
qed

lemma process_iteration_resync:
  assumes "get_event env = Inl err" and "IsErrBinlogPurged err"
    and "tryReSync v" and "EnableGTID (cfg r)" and "AutoFixGTID (cfg r)"
  shows "calls (snd (snd (process_iteration env v r))) = calls r @ [CalledReSyncBinlog]
       \<and> (fst (process_iteration env v r) = Continue \<longrightarrow>
            \<not> tryReSync (fst (snd (process_iteration env v r))))"
proof -
  let ?r0 = "r\<lparr>calls := calls r @ [CalledReSyncBinlog]\<rparr>"
  have c: "Cause err = ErrBinlogPurged" using assms(2) by (simp add: IsErrBinlogPurged_def)
  obtain res r1 where h: "reSyncBinlog env ?r0 = (res, r1)" by (metis surj_pair)
  have "calls r1 = calls r @ [CalledReSyncBinlog]"
    using reSyncBinlog_calls [of env ?r0] h by simp
  with h c assms show ?thesis
    by (cases res) (simp_all add: process_iteration_def)
qed

lemma process_iteration_no_resync:
  assumes "get_event env = Inl err"
    and "\<not> (IsErrBinlogPurged err \<and> tryReSync v \<and> EnableGTID (cfg r) \<and> AutoFixGTID (cfg r))"
  shows "calls (snd (snd (process_iteration env v r))) = calls r
       \<and> fst (snd (process_iteration env v r)) = v"
  using assms by (cases "Cause err") (auto simp: process_iteration_def)

lemma process_iteration_purged_flag_cleared:
  assumes "get_event env = Inl err" and "IsErrBinlogPurged err" and "\<not> tryReSync v"
  shows "process_iteration env v r =
           (Return (Some err), v, r\<lparr>binlogReadErrorCounter := binlogReadErrorCounter r + 1\<rparr>)"
  using assms by (simp add: process_iteration_def IsErrBinlogPurged_def)

lemma process_iteration_calls:
  "\<exists>cs. calls (snd (snd (process_iteration env v r))) = calls r @ cs
        \<and> resyncs_spaced (tryReSync v) cs
        \<and> (fst (process_iteration env v r) = Continue \<longrightarrow>
             tryReSync (fst (snd (process_iteration env v r))) = flag_after (tryReSync v) cs)"
proof (cases "get_event env")
  case (Inr e)
  from process_iteration_event [OF Inr, of v r] show ?thesis
    by (intro exI [of _ "[ReceivedEvent]"]) simp
next
  case (Inl err)
  show ?thesis
  proof (cases "IsErrBinlogPurged err \<and> tryReSync v \<and> EnableGTID (cfg r) \<and> AutoFixGTID (cfg r)")
    case True
    with process_iteration_resync [OF Inl, of v r] show ?thesis
      by (intro exI [of _ "[CalledReSyncBinlog]"]) simp
  next
    case False
    from process_iteration_no_resync [OF Inl False] show ?thesis
      by (intro exI [of _ "[]"]) simp
  qed
qed

lemma process_loop_calls:
  "\<exists>cs. calls (snd (snd (process_loop envs v r))) = calls r @ cs
        \<and> resyncs_spaced (tryReSync v) cs"
proof (induction envs arbitrary: v r)
  case Nil
  show ?case by simp
next
  case (Cons env envs)
  obtain c v1 r1 where it: "process_iteration env v r = (c, v1, r1)" by (metis prod_cases3)
  from process_iteration_calls [of env v r] it
  obtain cs where cs: "calls r1 = calls r @ cs" "resyncs_spaced (tryReSync v) cs"
    "c = Continue \<longrightarrow> tryReSync v1 = flag_after (tryReSync v) cs"
    by auto
  show ?case
  proof (cases c)
    case Continue
    from Cons.IH [of v1 r1] obtain ds where
      ds: "calls (snd (snd (process_loop envs v1 r1))) = calls r1 @ ds"
          "resyncs_spaced (tryReSync v1) ds"
      by auto
    from cs ds Continue have "resyncs_spaced (tryReSync v) (cs @ ds)"
      by (simp add: resyncs_spaced_append)
    with cs ds it Continue show ?thesis
      by (intro exI [of _ "cs @ ds"]) simp
  next
    case (Return e)
    with it cs show ?thesis by (intro exI [of _ cs]) simp
  next
    case Panicked
    with it cs show ?thesis by (intro exI [of _ cs]) simp
  qed
qed

lemma process_calls:
  "\<exists>cs. calls (snd (process env0 envs r)) = calls r @ cs \<and> resyncs_spaced True cs"
proof -
  let ?pre = "(if length (meta_UUID (meta r)) = 0 then reSetupMeta env0 r else (Ok (), r))"
  obtain res r1 where p: "?pre = (res, r1)" by (metis surj_pair)
  have c1: "calls r1 = calls r"
    using p reSetupMeta_calls [of env0 r] by (auto split: if_splits)
  have triv: "\<And>x. calls x = calls r \<Longrightarrow> \<exists>cs. calls x = calls r @ cs \<and> resyncs_spaced True cs"
    by (intro exI [of _ "[]"]) simp
  show ?thesis
  proof (cases res)
    case (Ok u)
    obtain res2 r2 where g: "getBinlogStreamer env0 r1 = (res2, r2)" by (metis surj_pair)
    have c2: "calls r2 = calls r" using getBinlogStreamer_calls [of env0 r1] g c1 by simp
    show ?thesis
    proof (cases res2)
      case (Ok s)
      let ?v = "\<lparr>lastPos = snd (meta_Pos (meta r2)), lastGTID = snd (meta_GTID (meta r2)),
                 tryReSync = True, streamer = s\<rparr>"
      obtain c v3 r3 where l: "process_loop envs ?v r2 = (c, v3, r3)" by (metis prod_cases3)
      from process_loop_calls [of envs ?v r2] l c2
      have "\<exists>cs. calls r3 = calls r @ cs \<and> resyncs_spaced True cs" by simp
      with p \<open>res = Ok u\<close> g Ok l show ?thesis
        by (cases c) (simp_all add: process_def File_Close_calls del: process_loop.simps)
    next
      case (Err e)
      with p \<open>res = Ok u\<close> g c2 triv show ?thesis by (simp add: process_def)
    next
      case Panic
      with p \<open>res = Ok u\<close> g c2 triv show ?thesis by (simp add: process_def)
    qed
  next
    case (Err e)
    with p c1 triv show ?thesis by (simp add: process_def)
  next
    case Panic
    with p c1 triv show ?thesis by (simp add: process_def)
  qed
qed

text \<open>
  C4: in every run of \<open>process\<close> the log of calls has no two calls of \<open>reSyncBinlog\<close>
  without a received event between them. An iteration that reads a purged-logs error
  with the flag set, in GTID mode with auto-fix, calls \<open>reSyncBinlog\<close> and, when it
  continues, has cleared the flag; an iteration that receives an event sets the flag;
  an iteration that reads a purged-logs error with the flag cleared returns that error
  and calls nothing.
\<close>

theorem one_shot_resync:
  "(\<exists>cs. calls (snd (process env0 envs r)) = calls r @ cs \<and> resyncs_spaced True cs)
   \<and> (get_event env = Inl err \<and> IsErrBinlogPurged err \<and> tryReSync v
        \<and> EnableGTID (cfg r) \<and> AutoFixGTID (cfg r) \<longrightarrow>
      calls (snd (snd (process_iteration env v r))) = calls r @ [CalledReSyncBinlog]
      \<and> (fst (process_iteration env v r) = Continue \<longrightarrow>
           \<not> tryReSync (fst (snd (process_iteration env v r)))))
   \<and> (get_event env = Inr e \<longrightarrow>
      calls (snd (snd (process_iteration env v r))) = calls r @ [ReceivedEvent]
      \<and> tryReSync (fst (snd (process_iteration env v r))))
   \<and> (get_event env = Inl err \<and> IsErrBinlogPurged err \<and> \<not> tryReSync v \<longrightarrow>
      process_iteration env v r =
        (Return (Some err), v, r\<lparr>binlogReadErrorCounter := binlogReadErrorCounter r + 1\<rparr>))"
  using process_calls [of env0 envs r] process_iteration_resync [of env err v r]
    process_iteration_event [of env e v r] process_iteration_purged_flag_cleared [of env err v r]
  by blast

text \<open>
  A run in GTID mode with auto-fix: purged logs, a (fake) rotate, purged logs, a
  timeout, purged logs. The third purged-logs error ends the run after two resyncs.
\<close>

theorem one_shot_resync_witness:
  "calls (snd (process quiet_env
       [fail_with ErrBinlogPurged,
        deliver (binlog_event (RotateEvent ''mysql-bin.000001'' 4) 0 0 [1, 2, 3]),
        fail_with ErrBinlogPurged, fail_with DeadlineExceeded, fail_with ErrBinlogPurged]
       gtid_relay))
     = [CalledReSyncBinlog, ReceivedEvent, CalledReSyncBinlog]
   \<and> resyncs_spaced True (calls (snd (process quiet_env
       [fail_with ErrBinlogPurged,
        deliver (binlog_event (RotateEvent ''mysql-bin.000001'' 4) 0 0 [1, 2, 3]),
        fail_with ErrBinlogPurged, fail_with DeadlineExceeded, fail_with ErrBinlogPurged]
       gtid_relay)))
   \<and> fst (process quiet_env
       [fail_with ErrBinlogPurged,
        deliver (binlog_event (RotateEvent ''mysql-bin.000001'' 4) 0 0 [1, 2, 3]),
        fail_with ErrBinlogPurged, fail_with DeadlineExceeded, fail_with ErrBinlogPurged]
       gtid_relay) = Return (Some ErrBinlogPurged)
   \<and> process_iteration (fail_with ErrBinlogPurged) (sample_vars\<lparr>tryReSync := False\<rparr>) gtid_relay
       = (Return (Some ErrBinlogPurged), sample_vars\<lparr>tryReSync := False\<rparr>,
          gtid_relay\<lparr>binlogReadErrorCounter := binlogReadErrorCounter gtid_relay + 1\<rparr>)"
proof -
  let ?envs = "[fail_with ErrBinlogPurged,
        deliver (binlog_event (RotateEvent ''mysql-bin.000001'' 4) 0 0 [1, 2, 3]),
        fail_with ErrBinlogPurged, fail_with DeadlineExceeded, fail_with ErrBinlogPurged]"
  have c0: "calls gtid_relay = []" by code_simp
  have c: "calls (snd (process quiet_env ?envs gtid_relay))
     = [CalledReSyncBinlog, ReceivedEvent, CalledReSyncBinlog]"
    by code_simp
  have f: "fst (process quiet_env ?envs gtid_relay) = Return (Some ErrBinlogPurged)"
    by code_simp
  have h: "get_event (fail_with ErrBinlogPurged) = Inl ErrBinlogPurged \<and> IsErrBinlogPurged ErrBinlogPurged
      \<and> \<not> tryReSync (sample_vars\<lparr>tryReSync := False\<rparr>)"
    by (simp add: fail_with_def IsErrBinlogPurged_def)
  note t = one_shot_resync [of quiet_env ?envs gtid_relay "fail_with ErrBinlogPurged" ErrBinlogPurged
      "sample_vars\<lparr>tryReSync := False\<rparr>"]
  from t c0 have "resyncs_spaced True (calls (snd (process quiet_env ?envs gtid_relay)))"
    by auto
  moreover from t h have "process_iteration (fail_with ErrBinlogPurged) (sample_vars\<lparr>tryReSync := False\<rparr>) gtid_relay
       = (Return (Some ErrBinlogPurged), sample_vars\<lparr>tryReSync := False\<rparr>,
          gtid_relay\<lparr>binlogReadErrorCounter := binlogReadErrorCounter gtid_relay + 1\<rparr>)"
    by blast
  ultimately show ?thesis using c f by simp
qed


subsection \<open>A FormatDescriptionEvent for a file that has one\<close>

lemma length_BinLogFileHeader: "length BinLogFileHeader = 4"
  by (simp add: BinLogFileHeader_def)

lemma take_with_header: "take 4 (with_header c) = BinLogFileHeader"
  by (simp add: with_header_def length_BinLogFileHeader)


lemma padded_read_eq_header:
  "(take 4 c @ replicate (4 - length (take 4 c)) 0 = BinLogFileHeader) = (take 4 c = BinLogFileHeader)"
proof (cases "4 \<le> length c")
  case True
  then show ?thesis by simp
next
  case False
  then have l: "length c < 4" and t: "take 4 c = c" by simp_all
  have "c @ replicate (4 - length c) 0 \<noteq> BinLogFileHeader"
  proof
    assume e: "c @ replicate (4 - length c) 0 = BinLogFileHeader"
    have "replicate (4 - length c) (0::byte) \<noteq> []" using l by simp
    then have "last (c @ replicate (4 - length c) (0::byte)) = 0"
      by (simp add: last_append)
    with e show False by (simp add: BinLogFileHeader_def)
  qed
  moreover have "c \<noteq> BinLogFileHeader"
    using l length_BinLogFileHeader by (metis less_irrefl)
  ultimately show ?thesis using t by simp
qed









subsection \<open>The magic at the start of every file\<close>

lemma with_header_eq: "with_header c = BinLogFileHeader @ drop 4 c"
  by (metis append_take_drop_id with_header_def)

lemma File_Read_header:
  assumes "fd r = Some \<lparr>fpath = p, foffset = 0, fclosed = False\<rparr>" and "files r p = Some c"
    and "File_Read (read_err env) binlogHeaderSize r = (b, n, err, r')"
  shows "(err = None \<and> b = BinLogFileHeader \<and> take 4 c = BinLogFileHeader
          \<and> r' = r\<lparr>fd := Some \<lparr>fpath = p, foffset = 4, fclosed = False\<rparr>\<rparr>)
       \<or> ((err = Some EOF \<or> b \<noteq> BinLogFileHeader)
          \<and> (\<exists>k. r' = r\<lparr>fd := Some \<lparr>fpath = p, foffset = k, fclosed = False\<rparr>\<rparr>))"
proof (cases "read_err env")
  case (Some e)
  have z: "replicate 4 (0 :: byte) \<noteq> BinLogFileHeader"
  proof
    assume e: "replicate 4 (0 :: byte) = BinLogFileHeader"
    have "last (replicate 4 (0 :: byte)) = 0" by simp
    with e show False by (simp add: BinLogFileHeader_def)
  qed
  have same: "r = r\<lparr>fd := Some \<lparr>fpath = p, foffset = 0, fclosed = False\<rparr>\<rparr>"
    using assms(1) by simp
  have "b = replicate 4 0 \<and> r' = r"
    using Some assms by (auto simp: File_Read_def binlogHeaderSize_def)
  with z same show ?thesis by metis
next
  case None
  show ?thesis
  proof (cases "take 4 c = []")
    case True
    have same: "r = r\<lparr>fd := Some \<lparr>fpath = p, foffset = 0, fclosed = False\<rparr>\<rparr>"
      using assms(1) by simp
    have "err = Some EOF \<and> r' = r"
      using True None assms
      by (auto simp: File_Read_def binlogHeaderSize_def file_content_def Let_def)
    with same show ?thesis by metis
  next
    case False
    then have rd: "b = take 4 c @ replicate (4 - length (take 4 c)) 0" "err = None"
      "r' = r\<lparr>fd := Some \<lparr>fpath = p, foffset = length (take 4 c), fclosed = False\<rparr>\<rparr>"
      using None assms by (auto simp: File_Read_def binlogHeaderSize_def file_content_def Let_def)
    show ?thesis
    proof (cases "take 4 c = BinLogFileHeader")
      case True
      with rd length_BinLogFileHeader show ?thesis by simp
    next
      case nh: False
      with rd padded_read_eq_header [of c] have "b \<noteq> BinLogFileHeader" by simp
      with rd show ?thesis by metis
    qed
  qed
qed

lemma seek_and_write_header:
  assumes "fd r = Some \<lparr>fpath = p, foffset = k, fclosed = False\<rparr>" and "files r p = Some c"
    and "(case File_SeekStart (seek_start_err env) r of
            (ret, Some e, r2) \<Rightarrow> (Some e, r2)
          | (ret, None, r2) \<Rightarrow>
              (case File_Write (write_header_fault env) r2 BinLogFileHeader of
                 (k, Some e, r3) \<Rightarrow> (Some e, r3)
               | (k, None, r3) \<Rightarrow> (None, r3))) = (e1, r1)"
  shows "(header_io_ok env \<longrightarrow> e1 = None)
       \<and> (e1 = None \<longrightarrow>
            r1 = r\<lparr>fd := Some \<lparr>fpath = p, foffset = 4, fclosed = False\<rparr>,
                   files := (files r)(p \<mapsto> with_header c)\<rparr>)"
proof -
  have w: "write_at c 0 BinLogFileHeader = with_header c"
    by (simp add: write_at_def length_BinLogFileHeader with_header_eq)
  from assms w show ?thesis
    by (auto simp: File_SeekStart_def File_Write_def Let_def header_io_ok_def file_content_def
          length_BinLogFileHeader split: option.splits if_splits)
qed

lemma writeBinlogHeaderIfNotExists_gen:
  assumes "fd r = Some \<lparr>fpath = p, foffset = 0, fclosed = False\<rparr>" and "files r p = Some c"
    and "writeBinlogHeaderIfNotExists env r = (e1, r1)"
  shows "(header_io_ok env \<longrightarrow> e1 = None)
       \<and> (e1 = None \<longrightarrow>
            r1 = r\<lparr>fd := Some \<lparr>fpath = p, foffset = 4, fclosed = False\<rparr>,
                   files := (files r)(p \<mapsto> with_header c)\<rparr>)"
proof -
  obtain b n err r' where rd: "File_Read (read_err env) binlogHeaderSize r = (b, n, err, r')"
    by (metis prod_cases4)
  from File_Read_header [OF assms(1,2) rd] show ?thesis
  proof
    assume h: "err = None \<and> b = BinLogFileHeader \<and> take 4 c = BinLogFileHeader
          \<and> r' = r\<lparr>fd := Some \<lparr>fpath = p, foffset = 4, fclosed = False\<rparr>\<rparr>"
    have f: "(files r)(p \<mapsto> with_header c) = files r"
      using assms(2) h by (simp add: fun_upd_idem with_header_def)
    have g: "r\<lparr>fd := Some \<lparr>fpath = p, foffset = 4, fclosed = False\<rparr>, files := files r\<rparr>
           = r\<lparr>fd := Some \<lparr>fpath = p, foffset = 4, fclosed = False\<rparr>\<rparr>"
      by simp
    have "e1 = None \<and> r1 = r\<lparr>fd := Some \<lparr>fpath = p, foffset = 4, fclosed = False\<rparr>\<rparr>"
      using h rd assms(3) by (auto simp: writeBinlogHeaderIfNotExists_def)
    with f g show ?thesis by simp
  next
    assume h: "(err = Some EOF \<or> b \<noteq> BinLogFileHeader)
          \<and> (\<exists>k. r' = r\<lparr>fd := Some \<lparr>fpath = p, foffset = k, fclosed = False\<rparr>\<rparr>)"
    then obtain k where k: "r' = r\<lparr>fd := Some \<lparr>fpath = p, foffset = k, fclosed = False\<rparr>\<rparr>" by blast
    have f: "fd r' = Some \<lparr>fpath = p, foffset = k, fclosed = False\<rparr>" "files r' p = Some c"
      using k assms(2) by simp_all
    have "(case File_SeekStart (seek_start_err env) r' of
            (ret, Some e, r2) \<Rightarrow> (Some e, r2)
          | (ret, None, r2) \<Rightarrow>
              (case File_Write (write_header_fault env) r2 BinLogFileHeader of
                 (k, Some e, r3) \<Rightarrow> (Some e, r3)
               | (k, None, r3) \<Rightarrow> (None, r3))) = (e1, r1)"
      using h rd assms(3) by (simp add: writeBinlogHeaderIfNotExists_def)
    from seek_and_write_header [OF f this] k show ?thesis by simp
  qed
qed

lemma ParseSingleEvent_state:
  assumes "fd r = Some \<lparr>fpath = p, foffset = k, fclosed = False\<rparr>"
  shows "snd (snd (ParseSingleEvent env r)) = r
       \<or> snd (snd (ParseSingleEvent env r)) =
            r\<lparr>fd := Some \<lparr>fpath = p,
                          foffset = k + min EventHeaderSize (length (drop k (file_content (files r) p))),
                          fclosed = False\<rparr>\<rparr>"
  using assms by (simp add: ParseSingleEvent_def Let_def split: option.splits)

lemma ParseSingleEvent_gen:
  assumes "fd r = Some \<lparr>fpath = p, foffset = k, fclosed = False\<rparr>"
  shows "\<exists>k'. k \<le> k' \<and> snd (snd (ParseSingleEvent env r))
            = r\<lparr>fd := Some \<lparr>fpath = p, foffset = k', fclosed = False\<rparr>\<rparr>"
proof -
  have a: "r = r\<lparr>fd := Some \<lparr>fpath = p, foffset = k, fclosed = False\<rparr>\<rparr>" using assms by simp
  from ParseSingleEvent_state [OF assms, of env] show ?thesis
  proof
    assume "snd (snd (ParseSingleEvent env r)) = r"
    with a show ?thesis by (metis order_refl)
  next
    assume "snd (snd (ParseSingleEvent env r)) =
            r\<lparr>fd := Some \<lparr>fpath = p,
                          foffset = k + min EventHeaderSize (length (drop k (file_content (files r) p))),
                          fclosed = False\<rparr>\<rparr>"
    then show ?thesis by (metis le_add1)
  qed
qed

lemma File_SeekEnd_gen:
  assumes "fd r = Some \<lparr>fpath = p, foffset = k, fclosed = False\<rparr>" and "files r p = Some c"
    and "File_SeekEnd fault r = (n, e, r1)"
  shows "(e = None \<longrightarrow> r1 = r\<lparr>fd := Some \<lparr>fpath = p, foffset = length c, fclosed = False\<rparr>\<rparr>)
       \<and> (e \<noteq> None \<longrightarrow> r1 = r)"
  using assms by (auto simp: File_SeekEnd_def file_content_def Let_def split: option.splits)

lemma checkFormatDescriptionEventExists_state:
  "snd (checkFormatDescriptionEventExists env r name) = snd (snd (ParseSingleEvent env r))"
  by (auto simp: checkFormatDescriptionEventExists_def split: prod.splits option.splits)

lemma checkFormatDescriptionEventExists_exists:
  "checkFormatDescriptionEventExists env r name = ((ex, Some e), r1) \<Longrightarrow> \<not> ex"
  by (auto simp: checkFormatDescriptionEventExists_def split: prod.splits option.splits if_splits)

lemma length_with_header_ge: "4 \<le> length (with_header c)"
  by (simp add: with_header_eq length_BinLogFileHeader)

lemma handleFormatDescriptionEvent_shape:
  assumes "handleFormatDescriptionEvent env r name = ((ex, err), r1)"
    and "err = None \<or> header_io_ok env"
  shows "(fd r1 = None \<and> files r1 = files r \<and> err \<noteq> None)
       \<or> (\<exists>k\<ge>4. fd r1 = Some \<lparr>fpath = path_Join (meta_Dir (meta r)) name, foffset = k,
                                  fclosed = False\<rparr>
             \<and> (err = None \<longrightarrow> k = length (with_header
                    (file_content (files r) (path_Join (meta_Dir (meta r)) name))))
             \<and> files r1 = (files r)(path_Join (meta_Dir (meta r)) name \<mapsto>
                   with_header (file_content (files r) (path_Join (meta_Dir (meta r)) name))))"
proof (cases "length name = 0")
  case True
  with assms(1) show ?thesis
    by (auto simp: handleFormatDescriptionEvent_def split: option.splits)
next
  case False
  let ?p = "path_Join (meta_Dir (meta r)) name"
  let ?c = "file_content (files r) ?p"
  let ?r0 = "(case fd r of None \<Rightarrow> r | Some f \<Rightarrow> r\<lparr>fd := None\<rparr>)"
  let ?fs = "(case files r ?p of None \<Rightarrow> (files r)(?p \<mapsto> []) | Some c \<Rightarrow> files r)"
  let ?f = "\<lparr>fpath = ?p, foffset = 0, fclosed = False\<rparr>"
  let ?ra = "?r0\<lparr>fd := Some ?f, files := ?fs\<rparr>"
  have r0: "meta ?r0 = meta r" "files ?r0 = files r" "fd ?r0 = None"
    by (simp_all split: option.splits)
  show ?thesis
  proof (cases "open_file_err env")
    case (Some e)
    then have "r1 = ?r0 \<and> err \<noteq> None"
      using assms(1) False r0
      by (auto simp: handleFormatDescriptionEvent_def Let_def os_OpenFile_def)
    with r0 show ?thesis by simp
  next
    case None
    have op: "os_OpenFile (open_file_err env) (files ?r0) (path_Join (meta_Dir (meta ?r0)) name)
        = (Inr ?f, ?fs)"
      using None r0 by (simp add: os_OpenFile_def)
    have fa: "fd ?ra = Some ?f" "files ?ra ?p = Some ?c"
      by (simp_all add: file_content_def split: option.splits)
    have upd: "(files ?ra)(?p \<mapsto> with_header ?c) = (files r)(?p \<mapsto> with_header ?c)"
      by (simp split: option.splits)
    obtain e1 rw where w: "writeBinlogHeaderIfNotExists env ?ra = (e1, rw)" by (metis surj_pair)
    note wg = writeBinlogHeaderIfNotExists_gen [OF fa w]
    have e1: "e1 = None"
    proof (rule ccontr)
      assume "e1 \<noteq> None"
      then obtain e where "e1 = Some e" by auto
      with op w assms(1) False have "err \<noteq> None"
        by (auto simp: handleFormatDescriptionEvent_def Let_def)
      with assms(2) wg \<open>e1 \<noteq> None\<close> show False by simp
    qed
    let ?f4 = "\<lparr>fpath = ?p, foffset = 4, fclosed = False\<rparr>"
    have rw: "fd rw = Some ?f4" "files rw = (files r)(?p \<mapsto> with_header ?c)"
      using wg e1 upd by simp_all
    obtain ex2 e2 r2 where ch: "checkFormatDescriptionEventExists env rw name = ((ex2, e2), r2)"
      by (metis surj_pair)
    from ParseSingleEvent_gen [OF rw(1), of env] checkFormatDescriptionEventExists_state [of env rw name] ch
    obtain k where k: "4 \<le> k" "r2 = rw\<lparr>fd := Some \<lparr>fpath = ?p, foffset = k, fclosed = False\<rparr>\<rparr>"
      by auto
    have r2: "fd r2 = Some \<lparr>fpath = ?p, foffset = k, fclosed = False\<rparr>"
      "files r2 = (files r)(?p \<mapsto> with_header ?c)" "files r2 ?p = Some (with_header ?c)"
      using k rw by simp_all
    show ?thesis
    proof (cases e2)
      case (Some e)
      with op w e1 ch assms(1) False
      have "err \<noteq> None \<and> r1 = r2\<lparr>relayLogDataCorruptionCounter := relayLogDataCorruptionCounter r2 + 1\<rparr>"
        by (auto simp: handleFormatDescriptionEvent_def Let_def)
      with r2 k show ?thesis by auto
    next
      case None
      obtain ret e3 r3 where sk: "File_SeekEnd (seek_end_err env) r2 = (ret, e3, r3)"
        by (metis prod_cases3)
      note sg = File_SeekEnd_gen [OF r2(1) r2(3) sk]
      show ?thesis
      proof (cases e3)
        case (Some e)
        with op w e1 ch \<open>e2 = None\<close> sk assms(1) False sg
        have "err \<noteq> None \<and> r1 = r2"
          by (auto simp: handleFormatDescriptionEvent_def Let_def)
        with r2 k show ?thesis by auto
      next
        case n3: None
        with op w e1 ch \<open>e2 = None\<close> sk assms(1) False sg
        have "r1 = r2\<lparr>fd := Some \<lparr>fpath = ?p, foffset = length (with_header ?c), fclosed = False\<rparr>\<rparr>"
          by (auto simp: handleFormatDescriptionEvent_def Let_def)
        with r2 length_with_header_ge [of ?c] show ?thesis by auto
      qed
    qed
  qed
qed

lemma has_header_with_header: "has_header (Some (with_header c))"
  by (simp add: has_header_def take_with_header)

lemma handleFormatDescriptionEvent_fd_ok:
  assumes "handleFormatDescriptionEvent env r name = ((ex, err), r1)"
    and "err = None \<or> header_io_ok env"
  shows "fd_ok r1 \<and> kept_or_headed (files r) (files r1) p"
  using handleFormatDescriptionEvent_shape [OF assms] has_header_with_header
  by (auto simp: fd_ok_def kept_or_headed_def)

lemma take_write_at:
  assumes "4 \<le> off" and "take 4 c = BinLogFileHeader"
  shows "take 4 (write_at c off bs) = BinLogFileHeader"
proof -
  have "4 \<le> length c" using assms(2) length_BinLogFileHeader by (metis length_take min.cobounded1)
  with assms show ?thesis by (simp add: write_at_def)
qed

lemma File_Write_fd_ok:
  assumes "fd_ok r" and "File_Write fault r bs = (n, e, r1)"
  shows "fd_ok r1 \<and> kept_or_headed (files r) (files r1) p"
proof (cases "fd r")
  case None
  with assms show ?thesis by (simp add: File_Write_def kept_or_headed_def)
next
  case (Some f)
  show ?thesis
  proof (cases "fclosed f")
    case True
    with Some assms show ?thesis by (simp add: File_Write_def kept_or_headed_def)
  next
    case False
    with Some assms(1) obtain c where c: "files r (fpath f) = Some c" "take 4 c = BinLogFileHeader"
      "4 \<le> foffset f"
      by (auto simp: fd_ok_def has_header_def split: option.splits)
    from take_write_at [OF c(3) c(2)] Some False assms c show ?thesis
      by (auto simp: File_Write_def Let_def fd_ok_def kept_or_headed_def has_header_def
            file_content_def split: if_splits)
  qed
qed

lemma fd_ok_cong: "fd r' = fd r \<Longrightarrow> files r' = files r \<Longrightarrow> fd_ok r' = fd_ok r"
  by (simp add: fd_ok_def split: option.splits)

lemma kept_or_headed_refl: "kept_or_headed fs fs p"
  by (simp add: kept_or_headed_def)

lemma kept_or_headed_trans:
  "kept_or_headed fs fs1 p \<Longrightarrow> kept_or_headed fs1 fs2 p \<Longrightarrow> kept_or_headed fs fs2 p"
  by (auto simp: kept_or_headed_def)

lemma process_write_fd_ok:
  assumes "fd_ok r"
  shows "fd_ok (snd (snd (process_write env e v r)))
       \<and> kept_or_headed (files r) (files (snd (snd (process_write env e v r)))) p"
proof -
  obtain n e2 r1 where w: "File_Write (write_event_fault env) r (RawData e) = (n, e2, r1)"
    by (metis prod_cases3)
  from File_Write_fd_ok [OF assms w, of p]
  have a: "fd_ok r1" "kept_or_headed (files r) (files r1) p" by simp_all
  have b: "fd (snd (snd (process_write env e v r))) = fd r1
         \<and> files (snd (snd (process_write env e v r))) = files r1"
    using w by (auto simp: process_write_def Let_def meta_Save_def split: option.splits)
  with a fd_ok_cong [of "snd (snd (process_write env e v r))" r1] show ?thesis by simp
qed

lemma syncer_StartSync_frame:
  "fd (snd (syncer_StartSync env r pos)) = fd r \<and> files (snd (syncer_StartSync env r pos)) = files r"
  by (simp add: syncer_StartSync_def split: option.splits)

lemma syncer_StartSyncGTID_frame:
  "fd (snd (syncer_StartSyncGTID env r gs)) = fd r
   \<and> files (snd (syncer_StartSyncGTID env r gs)) = files r"
  by (simp add: syncer_StartSyncGTID_def split: option.splits)

lemma startSyncByPos_frame:
  "fd (snd (startSyncByPos env r)) = fd r \<and> files (snd (startSyncByPos env r)) = files r"
  by (auto simp: startSyncByPos_def Let_def syncer_StartSync_frame meta_Save_def
        split: option.splits)

lemma startSyncByGTID_frame:
  "fd (snd (startSyncByGTID env r)) = fd r \<and> files (snd (startSyncByGTID env r)) = files r"
proof (cases "syncer_StartSyncGTID env r (snd (meta_GTID (meta r)))")
  case (Pair res r1)
  have m: "fd r1 = fd r \<and> files r1 = files r"
    using syncer_StartSyncGTID_frame [of env r "snd (meta_GTID (meta r))"] Pair by simp
  show ?thesis
    using Pair m startSyncByPos_frame [of env r1]
    by (cases res) (simp_all add: startSyncByGTID_def Let_def)
qed

lemma getBinlogStreamer_frame:
  "fd (snd (getBinlogStreamer env r)) = fd r \<and> files (snd (getBinlogStreamer env r)) = files r"
  using startSyncByPos_frame [of env r] startSyncByGTID_frame [of env r]
  by (auto simp: getBinlogStreamer_def split: prod.splits option.splits)

lemma reopenStreamer_frame:
  "fd (snd (reopenStreamer env r)) = fd r \<and> files (snd (reopenStreamer env r)) = files r"
proof -
  have a: "\<And>x. fd (snd (getBinlogStreamer env (r\<lparr>syncer := x\<rparr>))) = fd r
             \<and> files (snd (getBinlogStreamer env (r\<lparr>syncer := x\<rparr>))) = files r"
    using getBinlogStreamer_frame [of env "r\<lparr>syncer := x\<rparr>" for x] by simp
  show ?thesis
    by (auto simp: reopenStreamer_def a split: result.splits option.splits)
qed

lemma retrySyncGTIDs_frame:
  "fd (snd (retrySyncGTIDs env r)) = fd r \<and> files (snd (retrySyncGTIDs env r)) = files r"
  by (auto simp: retrySyncGTIDs_def Let_def meta_AddDir_def
        split: option.splits sum.splits result.splits prod.splits)

lemma reSyncBinlog_frame:
  "fd (snd (reSyncBinlog env r)) = fd r \<and> files (snd (reSyncBinlog env r)) = files r"
proof (cases "retrySyncGTIDs env r")
  case (Pair res r1)
  have "fd r1 = fd r \<and> files r1 = files r" using retrySyncGTIDs_frame [of env r] Pair by simp
  with Pair reopenStreamer_frame [of env r1] show ?thesis
    by (cases res) (simp_all add: reSyncBinlog_def)
qed

lemma reSetupMeta_frame:
  "fd (snd (reSetupMeta env r)) = fd r \<and> files (snd (reSetupMeta env r)) = files r"
  by (auto simp: reSetupMeta_def meta_AddDir_def meta_Load_def Let_def
        split: option.splits result.splits)

lemma process_iteration_error_frame:
  assumes "get_event env = Inl err"
  shows "fd (snd (snd (process_iteration env v r))) = fd r
       \<and> files (snd (snd (process_iteration env v r))) = files r"
proof -
  let ?r0 = "r\<lparr>calls := calls r @ [CalledReSyncBinlog]\<rparr>"
  obtain res r1 where h: "reSyncBinlog env ?r0 = (res, r1)" by (metis surj_pair)
  have f: "fd r1 = fd r \<and> files r1 = files r" using reSyncBinlog_frame [of env ?r0] h by simp
  show ?thesis
    using assms h f by (cases "Cause err"; cases res) (auto simp: process_iteration_def)
qed

lemma process_iteration_fd_ok:
  assumes "fd_ok r"
    and "fst (process_iteration env v r) = Continue \<or> header_io_ok env"
  shows "fd_ok (snd (snd (process_iteration env v r)))
       \<and> kept_or_headed (files r) (files (snd (snd (process_iteration env v r)))) p"
proof (cases "get_event env")
  case (Inl err)
  from process_iteration_error_frame [OF Inl, of v r] assms(1)
    fd_ok_cong [of "snd (snd (process_iteration env v r))" r]
  show ?thesis by (simp add: kept_or_headed_refl)
next
  case (Inr e)
  let ?v0 = "v\<lparr>tryReSync := True\<rparr>"
  let ?r0 = "r\<lparr>calls := calls r @ [ReceivedEvent]\<rparr>"
  have ok0: "fd_ok ?r0" using assms(1) fd_ok_cong [of ?r0 r] by simp
  have f0: "files ?r0 = files r" by simp
  have w: "\<And>v'. fd_ok (snd (snd (process_write env e v' ?r0)))
       \<and> kept_or_headed (files r) (files (snd (snd (process_write env e v' ?r0)))) p"
    using process_write_fd_ok [OF ok0, of env e _ p] by simp
  have same: "fd_ok ?r0 \<and> kept_or_headed (files r) (files ?r0) p"
    using ok0 by (simp add: kept_or_headed_refl)
  show ?thesis
  proof (cases "Event e")
    case FormatDescriptionEvent
    obtain ex er r1 where h: "handleFormatDescriptionEvent env ?r0 (Name (lastPos ?v0)) = ((ex, er), r1)"
      by (metis surj_pair)
    have it: "process_iteration env v r =
        (case er of Some err \<Rightarrow> (Return (Some err), ?v0, r1)
         | None \<Rightarrow> if ex then (Continue, ?v0, r1) else process_write env e ?v0 r1)"
      using Inr FormatDescriptionEvent h by (simp add: process_iteration_def Let_def)
    have "er = None \<or> header_io_ok env"
      using assms(2) it by (cases er) auto
    from handleFormatDescriptionEvent_fd_ok [OF h this, of p]
    have a: "fd_ok r1" "kept_or_headed (files r) (files r1) p" by simp_all
    from process_write_fd_ok [OF a(1), of env e ?v0 p] a(2)
    have b: "fd_ok (snd (snd (process_write env e ?v0 r1)))
       \<and> kept_or_headed (files r) (files (snd (snd (process_write env e ?v0 r1)))) p"
      using kept_or_headed_trans by blast
    from it a b show ?thesis by (cases er) auto
  next
    case (RotateEvent n q)
    with Inr w same show ?thesis by (auto simp: process_iteration_def Let_def)
  next
    case (QueryEvent g)
    with Inr w show ?thesis by (auto simp: process_iteration_def Let_def)
  next
    case (XIDEvent g)
    with Inr w show ?thesis by (auto simp: process_iteration_def Let_def)
  next
    case GenericEvent
    with Inr w show ?thesis by (auto simp: process_iteration_def Let_def)
  qed
qed

lemma process_loop_fd_ok:
  assumes "fd_ok r"
    and "fst (process_loop envs v r) = Continue \<or> (\<forall>env\<in>set envs. header_io_ok env)"
  shows "fd_ok (snd (snd (process_loop envs v r)))
       \<and> kept_or_headed (files r) (files (snd (snd (process_loop envs v r)))) p"
  using assms
proof (induction envs arbitrary: v r)
  case Nil
  then show ?case by (simp add: kept_or_headed_refl)
next
  case (Cons env envs)
  obtain c v1 r1 where it: "process_iteration env v r = (c, v1, r1)" by (metis prod_cases3)
  show ?case
  proof (cases c)
    case Continue
    with it have lp: "process_loop (env # envs) v r = process_loop envs v1 r1" by simp
    from process_iteration_fd_ok [OF Cons.prems(1), of env v p] it Continue
    have a: "fd_ok r1" "kept_or_headed (files r) (files r1) p" by simp_all
    have "fst (process_loop envs v1 r1) = Continue \<or> (\<forall>env\<in>set envs. header_io_ok env)"
      using Cons.prems(2) lp by auto
    from Cons.IH [OF a(1) this] a(2) lp kept_or_headed_trans [of "files r" "files r1" p] show ?thesis
      by (simp del: process_loop.simps)
  next
    case (Return e)
    with it have lp: "process_loop (env # envs) v r = (c, v1, r1)" by simp
    with Return Cons.prems(2) have "header_io_ok env" by simp
    with process_iteration_fd_ok [OF Cons.prems(1), of env v p] it lp show ?thesis
      by (simp del: process_loop.simps)
  next
    case Panicked
    with it have lp: "process_loop (env # envs) v r = (c, v1, r1)" by simp
    with Panicked Cons.prems(2) have "header_io_ok env" by simp
    with process_iteration_fd_ok [OF Cons.prems(1), of env v p] it lp show ?thesis
      by (simp del: process_loop.simps)
  qed
qed

lemma no_open_file_fd_ok: "no_open_file r \<Longrightarrow> fd_ok r"
  by (auto simp: no_open_file_def fd_ok_def split: option.splits)

lemma File_Close_frame: "files (File_Close r) = files r"
  by (simp add: File_Close_def split: option.splits)

lemma process_kept_or_headed:
  assumes "no_open_file r"
    and "fst (process env0 envs r) = Continue \<or> (\<forall>env\<in>set envs. header_io_ok env)"
  shows "kept_or_headed (files r) (files (snd (process env0 envs r))) p"
proof -
  let ?pre = "(if length (meta_UUID (meta r)) = 0 then reSetupMeta env0 r else (Ok (), r))"
  obtain res r1 where pr: "?pre = (res, r1)" by (metis surj_pair)
  have f1: "fd r1 = fd r \<and> files r1 = files r"
    using pr reSetupMeta_frame [of env0 r] by (auto split: if_splits)
  show ?thesis
  proof (cases res)
    case (Ok u)
    obtain res2 r2 where g: "getBinlogStreamer env0 r1 = (res2, r2)" by (metis surj_pair)
    have f2: "fd r2 = fd r \<and> files r2 = files r"
      using getBinlogStreamer_frame [of env0 r1] g f1 by simp
    show ?thesis
    proof (cases res2)
      case (Ok s)
      let ?v = "\<lparr>lastPos = snd (meta_Pos (meta r2)), lastGTID = snd (meta_GTID (meta r2)),
                 tryReSync = True, streamer = s\<rparr>"
      obtain c v3 r3 where l: "process_loop envs ?v r2 = (c, v3, r3)" by (metis prod_cases3)
      have pc: "process env0 envs r = (case c of Continue \<Rightarrow> (Continue, r3) | _ \<Rightarrow> (c, File_Close r3))"
        using pr \<open>res = Ok u\<close> g Ok l by (cases c) (simp_all add: process_def del: process_loop.simps)
      have c1: "fst (process env0 envs r) = c" using pc by (cases c) simp_all
      have ok2: "fd_ok r2"
        using no_open_file_fd_ok [OF assms(1)] fd_ok_cong [of r2 r] f2 by simp
      have "fst (process_loop envs ?v r2) = Continue \<or> (\<forall>env\<in>set envs. header_io_ok env)"
        using assms(2) c1 l by simp
      from process_loop_fd_ok [OF ok2 this, of p] l f2
      have "kept_or_headed (files r) (files r3) p" by simp
      with pc show ?thesis by (cases c) (simp_all add: File_Close_frame)
    next
      case (Err e)
      with pr \<open>res = Ok u\<close> g f2 show ?thesis by (simp add: process_def kept_or_headed_def)
    next
      case Panic
      with pr \<open>res = Ok u\<close> g f2 show ?thesis by (simp add: process_def kept_or_headed_def)
    qed
  next
    case (Err e)
    with pr f1 show ?thesis by (simp add: process_def kept_or_headed_def)
  next
    case Panic
    with pr f1 show ?thesis by (simp add: process_def kept_or_headed_def)
  qed
qed

text \<open>
  C1, as the code has it: \<open>process\<close> starts with no open file. If it has not returned,
  or if in none of its iterations the seek or the write of the magic failed, then every
  file is as it was before or starts with \<open>FE 62 69 6E\<close>. And whenever
  \<open>handleFormatDescriptionEvent\<close> returns without error, \<open>r.fd\<close> is the named file, open,
  positioned at its end, and the file starts with the magic: event bytes are only ever
  written behind it.
\<close>

theorem binlog_files_start_with_header:
  assumes "no_open_file r"
    and "fst (process env0 envs r) = Continue \<or> (\<forall>env\<in>set envs. header_io_ok env)"
  shows "(files (snd (process env0 envs r)) p = files r p
          \<or> (\<exists>d. files (snd (process env0 envs r)) p = Some d \<and> take 4 d = BinLogFileHeader))
       \<and> (snd (fst (handleFormatDescriptionEvent env r' name)) = None \<longrightarrow>
            (\<exists>f d. fd (snd (handleFormatDescriptionEvent env r' name)) = Some f
                  \<and> \<not> fclosed f \<and> fpath f = path_Join (meta_Dir (meta r')) name
                  \<and> files (snd (handleFormatDescriptionEvent env r' name)) (fpath f) = Some d
                  \<and> take 4 d = BinLogFileHeader \<and> foffset f = length d))"
proof -
  have a: "files (snd (process env0 envs r)) p = files r p
          \<or> (\<exists>d. files (snd (process env0 envs r)) p = Some d \<and> take 4 d = BinLogFileHeader)"
    using process_kept_or_headed [OF assms, of p]
    by (auto simp: kept_or_headed_def has_header_def split: option.splits)
  have b: "snd (fst (handleFormatDescriptionEvent env r' name)) = None \<longrightarrow>
            (\<exists>f d. fd (snd (handleFormatDescriptionEvent env r' name)) = Some f
                  \<and> \<not> fclosed f \<and> fpath f = path_Join (meta_Dir (meta r')) name
                  \<and> files (snd (handleFormatDescriptionEvent env r' name)) (fpath f) = Some d
                  \<and> take 4 d = BinLogFileHeader \<and> foffset f = length d)"
  proof
    assume n: "snd (fst (handleFormatDescriptionEvent env r' name)) = None"
    obtain ex err r1 where h: "handleFormatDescriptionEvent env r' name = ((ex, err), r1)"
      by (metis surj_pair)
    with n have e: "err = None" by simp
    then have "err = None \<or> header_io_ok env" by simp
    from handleFormatDescriptionEvent_shape [OF h this] e h take_with_header
    show "\<exists>f d. fd (snd (handleFormatDescriptionEvent env r' name)) = Some f
                  \<and> \<not> fclosed f \<and> fpath f = path_Join (meta_Dir (meta r')) name
                  \<and> files (snd (handleFormatDescriptionEvent env r' name)) (fpath f) = Some d
                  \<and> take 4 d = BinLogFileHeader \<and> foffset f = length d"
      by auto
  qed
  from a b show ?thesis by blast
qed

text \<open>
  A fresh start in position mode: a fake rotate, a FormatDescriptionEvent and one more
  event produce \<open>mysql-bin.000001\<close> with the magic in front.
\<close>

theorem binlog_files_start_with_header_witness:
  "no_open_file sample_relay
   \<and> fst (process quiet_env
        [deliver (binlog_event (RotateEvent ''mysql-bin.000001'' 4) 0 0 [1, 2]),
         deliver (binlog_event FormatDescriptionEvent 5 120 [9, 9, 9]),
         deliver (binlog_event GenericEvent 6 130 [7, 7])] sample_relay) = Continue
   \<and> files sample_relay sample_file = None
   \<and> files (snd (process quiet_env
        [deliver (binlog_event (RotateEvent ''mysql-bin.000001'' 4) 0 0 [1, 2]),
         deliver (binlog_event FormatDescriptionEvent 5 120 [9, 9, 9]),
         deliver (binlog_event GenericEvent 6 130 [7, 7])] sample_relay)) sample_file
       = Some (BinLogFileHeader @ [9, 9, 9, 7, 7])
   \<and> (\<exists>d. files (snd (process quiet_env
        [deliver (binlog_event (RotateEvent ''mysql-bin.000001'' 4) 0 0 [1, 2]),
         deliver (binlog_event FormatDescriptionEvent 5 120 [9, 9, 9]),
         deliver (binlog_event GenericEvent 6 130 [7, 7])] sample_relay)) sample_file = Some d
        \<and> take 4 d = BinLogFileHeader)"
proof -
  let ?envs = "[deliver (binlog_event (RotateEvent ''mysql-bin.000001'' 4) 0 0 [1, 2]),
         deliver (binlog_event FormatDescriptionEvent 5 120 [9, 9, 9]),
         deliver (binlog_event GenericEvent 6 130 [7, 7])]"
  have h1: "no_open_file sample_relay" by code_simp
  have h2: "fst (process quiet_env ?envs sample_relay) = Continue" by code_simp
  have f0: "files sample_relay sample_file = None" by code_simp
  have f1: "files (snd (process quiet_env ?envs sample_relay)) sample_file
       = Some (BinLogFileHeader @ [9, 9, 9, 7, 7])"
    by code_simp
  from h2 have h2': "fst (process quiet_env ?envs sample_relay) = Continue
      \<or> (\<forall>env\<in>set ?envs. header_io_ok env)" by (rule disjI1)
  note t = binlog_files_start_with_header [OF h1 h2', of sample_file, THEN conjunct1]
  from t f0 f1 have "\<exists>d. files (snd (process quiet_env ?envs sample_relay)) sample_file = Some d
        \<and> take 4 d = BinLogFileHeader"
    by auto
  with h1 h2 f0 f1 show ?thesis by blast
qed


text \<open>
  C1 as the spec words it has every file the relay produces start with the magic, a
  file without it lasting only until the first write. When that write fails, \<open>process\<close>
  returns the error and the file that the open has created stays empty.
\<close>

theorem header_write_failure_leaves_file_without_magic:
  "files sample_relay sample_file = None
   \<and> fst (process quiet_env
        [deliver (binlog_event (RotateEvent ''mysql-bin.000001'' 4) 0 0 [1, 2]),
         (deliver (binlog_event FormatDescriptionEvent 5 120 [9, 9, 9]))
           \<lparr>write_header_fault := Some (0, OtherError 28)\<rparr>] sample_relay)
     = Return (Some (Annotated (OtherError 28) ''file full path relay/uuid-a/mysql-bin.000001''))
   \<and> files (snd (process quiet_env
        [deliver (binlog_event (RotateEvent ''mysql-bin.000001'' 4) 0 0 [1, 2]),
         (deliver (binlog_event FormatDescriptionEvent 5 120 [9, 9, 9]))
           \<lparr>write_header_fault := Some (0, OtherError 28)\<rparr>] sample_relay)) sample_file
     = Some []"
  by code_simp

end
